theory Spec2Isabelle
  imports Main "HOL-Library.Char_ord" "HOL-Library.List_Lexorder" "HOL-Library.Multiset"
begin

section \<open>The relational store\<close>

text \<open>
  The program is a membership registry over a PostgreSQL store: \<^verbatim>\<open>backend/db.py\<close> is the
  data-access layer, \<^verbatim>\<open>backend/app.py\<close> the HTTP layer over it, and \<^verbatim>\<open>app.py\<close> at the
  root an earlier single-file version of both. The tables are lists of rows; the columns
  are the ones the SQL statements of the source name.
\<close>

type_synonym uuid = string
type_synonym timestamp = int

text \<open>A \<^verbatim>\<open>NUMERIC\<close> value as psycopg2 hands it over: \<open>Decimal u s\<close> is \<open>u / 10 ^ s\<close>.\<close>

datatype decimal = Decimal int nat

record member_row =
  m_id :: uuid
  m_name :: string
  m_membership_level_id :: "int option"
  m_interview_status_id :: "int option"
  m_gender :: "string option"
  m_birthdate :: "int option"
  m_phone :: "string option"
  m_email :: "string option"
  m_basic_info :: "string option"
  m_created_at :: timestamp

record lookup_row =
  l_id :: int
  l_code :: string

record offering_row =
  o_id :: int
  o_member_id :: uuid
  o_amount :: "decimal option"
  o_currency :: string
  o_donated_at :: timestamp
  o_note :: "string option"

record db =
  members :: "member_row list"
  offerings :: "offering_row list"
  membership_levels :: "lookup_row list"
  interview_statuses :: "lookup_row list"

text \<open>
  Modelled from the spec: the schema of the store is not part of the source. The values the
  store assigns on insert (the member id, the offering id, the current time for
  \<^verbatim>\<open>created_at\<close> and \<^verbatim>\<open>donated_at\<close>, the default currency) are parameters, each a function
  of the store's contents.
\<close>

record schema =
  new_member_id :: "db \<Rightarrow> uuid"
  new_offering_id :: "db \<Rightarrow> int"
  current_time :: "db \<Rightarrow> timestamp"
  default_currency :: string

section \<open>Exceptions, the process state and control flow\<close>

text \<open>
  The exceptions the functions raise or let through: \<open>DatabaseUrlNotSet\<close> is the
  \<^verbatim>\<open>RuntimeError\<close> of \<^verbatim>\<open>get_connection\<close>; \<open>UnknownCode table value\<close> is the
  \<^verbatim>\<open>ValueError\<close> of \<^verbatim>\<open>_resolve_lookup_id\<close>, whose message names both;
  \<open>ConstraintViolation\<close> is the store rejecting a row (psycopg2's \<^verbatim>\<open>IntegrityError\<close>);
  \<open>StoreFailure\<close> is any other error of the store (an undefined table, a lost connection,
  a store that cannot be reached); \<open>MissingDsn\<close> is the \<^verbatim>\<open>TypeError\<close> of
  \<^verbatim>\<open>psycopg2.connect\<close> called with \<^verbatim>\<open>None\<close>.
\<close>

datatype error =
  DatabaseUrlNotSet
| UnknownCode string string
| ConstraintViolation
| StoreFailure
| MissingDsn

text \<open>
  The state a call runs in. \<open>store\<close> is the committed data. A call holds at most one
  connection, so the connection's own state lives here too: \<open>txn\<close> is the transaction's
  view of the data, present from the first statement until commit, rollback or close.
  \<open>open_conns\<close> and \<open>open_cursors\<close> count what was acquired and not yet released.
  \<open>store_reachable\<close> says whether \<^verbatim>\<open>psycopg2.connect\<close> gets through to the store.
  \<open>fail_at\<close> injects one failure of the store: \<open>Some n\<close> makes the round trip after the
  next \<open>n\<close> (a statement or a commit) raise \<open>StoreFailure\<close>; \<open>None\<close> is a store that
  answers every request. \<open>fail_loses_conn\<close> says what kind of failure that is: when it
  holds, the failure is the loss of the connection, \<open>conn_lost\<close> is set, and a rollback
  on the lost connection raises too. No function issues a statement after a failure, so
  the rollback is the only call that meets a lost connection. Opening and closing a
  cursor and closing the connection are taken not to raise.
\<close>

record world =
  database_url :: "string option"
  store_reachable :: bool
  store :: db
  txn :: "db option"
  open_conns :: nat
  open_cursors :: nat
  conn_lost :: bool
  fail_at :: "nat option"
  fail_loses_conn :: bool

type_synonym 'a io = "world \<Rightarrow> (error + 'a) \<times> world"

definition io_return :: "'a \<Rightarrow> 'a io" where
  "io_return x = (\<lambda>w. (Inr x, w))"

definition io_raise :: "error \<Rightarrow> 'a io" where
  "io_raise e = (\<lambda>w. (Inl e, w))"

text \<open>Sequencing: an exception in the first statement skips the rest.\<close>

definition io_bind :: "'a io \<Rightarrow> ('a \<Rightarrow> 'b io) \<Rightarrow> 'b io" where
  "io_bind m f = (\<lambda>w. case m w of (Inl e, w') \<Rightarrow> (Inl e, w') | (Inr x, w') \<Rightarrow> f x w')"

text \<open>\<^verbatim>\<open>try: m  except Exception as e: h e\<close>\<close>

definition try_except :: "'a io \<Rightarrow> (error \<Rightarrow> 'a io) \<Rightarrow> 'a io" where
  "try_except m h = (\<lambda>w. case m w of (Inl e, w') \<Rightarrow> h e w' | (Inr x, w') \<Rightarrow> (Inr x, w'))"

text \<open>
  \<^verbatim>\<open>try: m  finally: fin\<close>: the finaliser runs on every exit of \<open>m\<close>; its own exception,
  if any, replaces the outcome of \<open>m\<close>.
\<close>

definition try_finally :: "'a io \<Rightarrow> unit io \<Rightarrow> 'a io" where
  "try_finally m fin =
     (\<lambda>w. case m w of (r, w') \<Rightarrow>
        (case fin w' of (Inl e, w'') \<Rightarrow> (Inl e, w'') | (Inr _, w'') \<Rightarrow> (r, w'')))"

subsection \<open>The connection\<close>

text \<open>\<^verbatim>\<open>psycopg2.connect(dsn)\<close> with a DSN: a new connection, with no transaction yet.\<close>

definition connect :: "unit io" where
  "connect =
     (\<lambda>w. if store_reachable w
           then (Inr (), w\<lparr>txn := None, open_conns := Suc (open_conns w), conn_lost := False\<rparr>)
           else (Inl StoreFailure, w))"

text \<open>\<^verbatim>\<open>backend/db.py\<close>, \<^verbatim>\<open>get_connection\<close>: an unset or empty URL is falsy.\<close>

definition get_connection :: "unit io" where
  "get_connection =
     (\<lambda>w. if database_url w = None \<or> database_url w = Some []
           then (Inl DatabaseUrlNotSet, w)
           else connect w)"

definition cursor :: "unit io" where
  "cursor = (\<lambda>w. (Inr (), w\<lparr>open_cursors := Suc (open_cursors w)\<rparr>))"

definition cursor_close :: "unit io" where
  "cursor_close = (\<lambda>w. (Inr (), w\<lparr>open_cursors := open_cursors w - 1\<rparr>))"

definition conn_close :: "unit io" where
  "conn_close = (\<lambda>w. (Inr (), w\<lparr>txn := None, open_conns := open_conns w - 1\<rparr>))"

text \<open>\<^verbatim>\<open>conn.rollback()\<close>: on a lost connection it raises.\<close>

definition rollback :: "unit io" where
  "rollback =
     (\<lambda>w. if conn_lost w then (Inl StoreFailure, w) else (Inr (), w\<lparr>txn := None\<rparr>))"

definition view :: "world \<Rightarrow> db" where
  "view w = (case txn w of None \<Rightarrow> store w | Some d \<Rightarrow> d)"

text \<open>
  \<^verbatim>\<open>cur.execute\<close> together with the fetch that follows it: a statement is a function from
  the transaction's view of the data to an error or a result and the new view. The first
  statement of a connection opens the transaction.
\<close>

definition execute :: "(db \<Rightarrow> error + 'r \<times> db) \<Rightarrow> 'r io" where
  "execute stmt =
     (\<lambda>w. case fail_at w of
        Some 0 \<Rightarrow>
          (Inl StoreFailure,
           w\<lparr>txn := Some (view w), conn_lost := fail_loses_conn w, fail_at := None\<rparr>)
      | fa \<Rightarrow>
          (let w1 = w\<lparr>fail_at := map_option (\<lambda>n. n - 1) fa\<rparr> in
           case stmt (view w) of
             Inl e \<Rightarrow> (Inl e, w1\<lparr>txn := Some (view w)\<rparr>)
           | Inr (r, d') \<Rightarrow> (Inr r, w1\<lparr>txn := Some d'\<rparr>)))"

definition commit :: "unit io" where
  "commit =
     (\<lambda>w. case fail_at w of
        Some 0 \<Rightarrow> (Inl StoreFailure, w\<lparr>conn_lost := fail_loses_conn w, fail_at := None\<rparr>)
      | fa \<Rightarrow> (Inr (), w\<lparr>store := view w, txn := None,
                          fail_at := map_option (\<lambda>n. n - 1) fa\<rparr>))"

definition fetchone :: "'r list \<Rightarrow> 'r option" where
  "fetchone rows = (case rows of [] \<Rightarrow> None | r # _ \<Rightarrow> Some r)"

section \<open>The SQL statements\<close>

definition lookup_table :: "string \<Rightarrow> db \<Rightarrow> lookup_row list option" where
  "lookup_table table d =
     (if table = ''membership_levels'' then Some (membership_levels d)
      else if table = ''interview_statuses'' then Some (interview_statuses d)
      else None)"

text \<open>\<^verbatim>\<open>SELECT id FROM {table} WHERE code = %s\<close>; a table the store does not have is an error.\<close>

definition select_lookup_id :: "string \<Rightarrow> string \<Rightarrow> db \<Rightarrow> error + int list \<times> db" where
  "select_lookup_id table code d =
     (case lookup_table table d of
        None \<Rightarrow> Inl StoreFailure
      | Some rows \<Rightarrow> Inr (map l_id (filter (\<lambda>r. l_code r = code) rows), d))"

text \<open>\<^verbatim>\<open>SELECT id, name FROM members ORDER BY created_at\<close>\<close>

definition select_members :: "db \<Rightarrow> error + (uuid \<times> string) list \<times> db" where
  "select_members d =
     Inr (map (\<lambda>m. (m_id m, m_name m)) (sort_key m_created_at (members d)), d)"

text \<open>
  \<^verbatim>\<open>LIKE\<close> as PostgreSQL defines it: in the pattern \<^verbatim>\<open>%\<close> stands for any run of
  characters, \<^verbatim>\<open>_\<close> for any one character, a backslash makes the character after it
  literal, and the pattern has to cover the whole subject. \<^verbatim>\<open>ILIKE\<close> is \<^verbatim>\<open>LIKE\<close> without
  regard to case; the letters folded here are the ASCII ones.
\<close>

fun like :: "string \<Rightarrow> string \<Rightarrow> bool" where
  "like s [] = (s = [])"
| "like s (p # ps) =
     (if p = CHR ''%'' then
        like s ps \<or> (case s of [] \<Rightarrow> False | _ # s' \<Rightarrow> like s' (p # ps))
      else if p = CHR ''_'' then
        (case s of [] \<Rightarrow> False | _ # s' \<Rightarrow> like s' ps)
      else if p = CHR 0x5C then
        (case ps of
           [] \<Rightarrow> False
         | q # qs \<Rightarrow> (case s of [] \<Rightarrow> False | c # s' \<Rightarrow> c = q \<and> like s' qs))
      else
        (case s of [] \<Rightarrow> False | c # s' \<Rightarrow> c = p \<and> like s' ps))"

definition lower :: "char \<Rightarrow> char" where
  "lower c = (if CHR ''A'' \<le> c \<and> c \<le> CHR ''Z'' then char_of (of_char c + (32::nat)) else c)"

definition ilike :: "string \<Rightarrow> string \<Rightarrow> bool" where
  "ilike s pat = like (map lower s) (map lower pat)"

text \<open>
  \<^verbatim>\<open>SELECT id, name FROM members WHERE name ILIKE %s ORDER BY name\<close>. The order of the
  names is the lexicographic one of their characters; among equal keys a sort keeps the
  order of the table, here and in the other statements.
\<close>

definition select_members_ilike :: "string \<Rightarrow> db \<Rightarrow> error + (uuid \<times> string) list \<times> db" where
  "select_members_ilike pat d =
     Inr (map (\<lambda>m. (m_id m, m_name m))
            (sort_key m_name (filter (\<lambda>m. ilike (m_name m) pat) (members d))), d)"

text \<open>\<^verbatim>\<open>SELECT id FROM members WHERE name = %s\<close>\<close>

definition select_member_id :: "string \<Rightarrow> db \<Rightarrow> error + uuid list \<times> db" where
  "select_member_id name d = Inr (map m_id (filter (\<lambda>m. m_name m = name) (members d)), d)"

text \<open>
  Modelled from the spec: the foreign keys of the schema, which is not part of the source.
  A non-null \<^verbatim>\<open>membership_level_id\<close> or \<^verbatim>\<open>interview_status_id\<close> has to be the id of a
  row of its lookup table, the \<^verbatim>\<open>member_id\<close> of an offering the id of a member, and a
  member that offerings still refer to cannot be deleted (no cascade).
\<close>

definition fk_ok :: "lookup_row list \<Rightarrow> int option \<Rightarrow> bool" where
  "fk_ok rows v = (case v of None \<Rightarrow> True | Some n \<Rightarrow> n \<in> set (map l_id rows))"

text \<open>
  \<^verbatim>\<open>INSERT INTO members (name, membership_level_id, interview_status_id, gender, birthdate,
  phone, email, basic_info) VALUES (...) RETURNING id, name\<close>; the result is the one row
  that \<^verbatim>\<open>fetchone\<close> reads.
\<close>

definition insert_member ::
  "schema \<Rightarrow> string \<Rightarrow> int option \<Rightarrow> int option \<Rightarrow> string option \<Rightarrow> int option \<Rightarrow>
   string option \<Rightarrow> string option \<Rightarrow> string option \<Rightarrow> db \<Rightarrow> error + (uuid \<times> string) \<times> db" where
  "insert_member sch name level_id status_id gender birthdate phone email basic_info d =
     (if fk_ok (membership_levels d) level_id \<and> fk_ok (interview_statuses d) status_id
      then
        (let row = \<lparr>m_id = new_member_id sch d, m_name = name,
                    m_membership_level_id = level_id, m_interview_status_id = status_id,
                    m_gender = gender, m_birthdate = birthdate, m_phone = phone,
                    m_email = email, m_basic_info = basic_info,
                    m_created_at = current_time sch d\<rparr>
         in Inr ((m_id row, m_name row), d\<lparr>members := members d @ [row]\<rparr>))
      else Inl ConstraintViolation)"

text \<open>\<^verbatim>\<open>DELETE FROM offerings WHERE member_id = %s\<close>; the result is the row count.\<close>

definition delete_offerings :: "uuid \<Rightarrow> db \<Rightarrow> error + nat \<times> db" where
  "delete_offerings member_id d =
     Inr (length (filter (\<lambda>x. o_member_id x = member_id) (offerings d)),
          d\<lparr>offerings := filter (\<lambda>x. o_member_id x \<noteq> member_id) (offerings d)\<rparr>)"

text \<open>\<^verbatim>\<open>DELETE FROM members WHERE id = %s\<close>; the result is \<^verbatim>\<open>cur.rowcount\<close>.\<close>

definition delete_member_row :: "uuid \<Rightarrow> db \<Rightarrow> error + nat \<times> db" where
  "delete_member_row member_id d =
     (if \<exists>x\<in>set (offerings d). o_member_id x = member_id
          \<and> member_id \<in> set (map m_id (members d))
      then Inl ConstraintViolation
      else Inr (length (filter (\<lambda>m. m_id m = member_id) (members d)),
                d\<lparr>members := filter (\<lambda>m. m_id m \<noteq> member_id) (members d)\<rparr>))"

text \<open>
  \<^verbatim>\<open>INSERT INTO offerings (member_id, amount, note[, donated_at]) VALUES (...)
  RETURNING id, amount, currency, donated_at, note\<close>
\<close>

definition insert_offering ::
  "schema \<Rightarrow> uuid \<Rightarrow> decimal \<Rightarrow> string \<Rightarrow> timestamp option \<Rightarrow> db \<Rightarrow> error + offering_row \<times> db" where
  "insert_offering sch member_id amount note donated_at d =
     (if member_id \<in> set (map m_id (members d))
      then
        (let row = \<lparr>o_id = new_offering_id sch d, o_member_id = member_id,
                    o_amount = Some amount, o_currency = default_currency sch,
                    o_donated_at = (case donated_at of None \<Rightarrow> current_time sch d | Some t \<Rightarrow> t),
                    o_note = Some note\<rparr>
         in Inr (row, d\<lparr>offerings := offerings d @ [row]\<rparr>))
      else Inl ConstraintViolation)"

text \<open>
  \<^verbatim>\<open>SELECT id, amount, currency, donated_at, note FROM offerings WHERE member_id = %s
  ORDER BY donated_at DESC\<close>
\<close>

definition select_offerings :: "uuid \<Rightarrow> db \<Rightarrow> error + offering_row list \<times> db" where
  "select_offerings member_id d =
     Inr (sort_key (\<lambda>x. - o_donated_at x)
            (filter (\<lambda>x. o_member_id x = member_id) (offerings d)), d)"

section \<open>The data-access layer (\<^verbatim>\<open>backend/db.py\<close>)\<close>

subsection \<open>Numbers\<close>

text \<open>
  Python's \<^verbatim>\<open>float\<close> is the type \<open>'f\<close>, with its operations taken as parameters: the
  conversions from \<^verbatim>\<open>Decimal\<close> and \<^verbatim>\<open>int\<close>, addition, \<^verbatim>\<open>round(x, 2)\<close>, truthiness
  (\<^verbatim>\<open>0.0\<close> is falsy), and the store's conversion of a float to \<^verbatim>\<open>NUMERIC\<close>.
\<close>

record 'f float_ops =
  float_of_decimal :: "decimal \<Rightarrow> 'f"
  float_of_int :: "int \<Rightarrow> 'f"
  float_add :: "'f \<Rightarrow> 'f \<Rightarrow> 'f"
  float_round2 :: "'f \<Rightarrow> 'f"
  float_truthy :: "'f \<Rightarrow> bool"
  numeric_of_float :: "'f \<Rightarrow> decimal"

datatype 'f pynum = PyInt int | PyFloat 'f

text \<open>\<^verbatim>\<open>amount: Union[int, float, Decimal]\<close>\<close>

datatype 'f amount = AmountInt int | AmountFloat 'f | AmountDecimal decimal

definition to_numeric :: "'f float_ops \<Rightarrow> 'f amount \<Rightarrow> decimal" where
  "to_numeric ops a =
     (case a of AmountInt i \<Rightarrow> Decimal i 0
      | AmountFloat x \<Rightarrow> numeric_of_float ops x
      | AmountDecimal d \<Rightarrow> d)"

definition py_add :: "'f float_ops \<Rightarrow> 'f pynum \<Rightarrow> 'f pynum \<Rightarrow> 'f pynum" where
  "py_add ops a b =
     (case (a, b) of
        (PyInt i, PyInt j) \<Rightarrow> PyInt (i + j)
      | (PyInt i, PyFloat y) \<Rightarrow> PyFloat (float_add ops (float_of_int ops i) y)
      | (PyFloat x, PyInt j) \<Rightarrow> PyFloat (float_add ops x (float_of_int ops j))
      | (PyFloat x, PyFloat y) \<Rightarrow> PyFloat (float_add ops x y))"

text \<open>\<^verbatim>\<open>sum\<close> starts from the integer 0 and adds from left to right.\<close>

definition py_sum :: "'f float_ops \<Rightarrow> 'f pynum list \<Rightarrow> 'f pynum" where
  "py_sum ops xs = foldl (py_add ops) (PyInt 0) xs"

text \<open>\<^verbatim>\<open>round(x, 2)\<close>: an integer is returned as it is.\<close>

definition py_round2 :: "'f float_ops \<Rightarrow> 'f pynum \<Rightarrow> 'f pynum" where
  "py_round2 ops x = (case x of PyInt i \<Rightarrow> PyInt i | PyFloat y \<Rightarrow> PyFloat (float_round2 ops y))"

text \<open>\<^verbatim>\<open>x or 0\<close> for an optional float \<open>x\<close>: \<^verbatim>\<open>None\<close> and \<^verbatim>\<open>0.0\<close> are falsy.\<close>

definition or_0 :: "'f float_ops \<Rightarrow> 'f option \<Rightarrow> 'f pynum" where
  "or_0 ops x =
     (case x of None \<Rightarrow> PyInt 0
      | Some y \<Rightarrow> if float_truthy ops y then PyFloat y else PyInt 0)"

subsection \<open>Helpers\<close>

text \<open>\<^verbatim>\<open>_to_float\<close>; the column is \<^verbatim>\<open>NUMERIC\<close>, so a value that is not \<^verbatim>\<open>None\<close> is a \<^verbatim>\<open>Decimal\<close>.\<close>

definition to_float :: "'f float_ops \<Rightarrow> decimal option \<Rightarrow> 'f option" where
  "to_float ops x = (case x of None \<Rightarrow> None | Some d \<Rightarrow> Some (float_of_decimal ops d))"

record member_out =
  mo_id :: uuid
  mo_name :: string

definition member_row_to_dict :: "uuid \<times> string \<Rightarrow> member_out" where
  "member_row_to_dict row = \<lparr>mo_id = fst row, mo_name = snd row\<rparr>"

record 'f offering_out =
  oo_id :: int
  oo_amount :: "'f option"
  oo_currency :: string
  oo_donated_at :: timestamp
  oo_note :: "string option"

definition offering_row_to_dict :: "'f float_ops \<Rightarrow> offering_row \<Rightarrow> 'f offering_out" where
  "offering_row_to_dict ops row =
     \<lparr>oo_id = o_id row, oo_amount = to_float ops (o_amount row),
      oo_currency = o_currency row, oo_donated_at = o_donated_at row, oo_note = o_note row\<rparr>"

record 'f offering_log =
  ol_member_id :: uuid
  ol_total :: "'f pynum"
  ol_log :: "'f offering_out list"

subsection \<open>Lookup resolution\<close>

text \<open>The value of a lookup argument: \<^verbatim>\<open>Union[int, str]\<close>; \<^verbatim>\<open>Optional\<close> is \<open>option\<close>.\<close>

datatype lookup_value = IntVal int | StrVal string

definition resolve_lookup_id :: "string \<Rightarrow> lookup_value option \<Rightarrow> int option io" where
  "resolve_lookup_id table v =
     (case v of
        None \<Rightarrow> io_return None
      | Some (IntVal n) \<Rightarrow> io_return (Some n)
      | Some (StrVal c) \<Rightarrow>
          io_bind (execute (select_lookup_id table c)) (\<lambda>rows.
            case fetchone rows of
              None \<Rightarrow> io_raise (UnknownCode table c)
            | Some n \<Rightarrow> io_return (Some n)))"

subsection \<open>Members\<close>

definition get_all_members :: "member_out list io" where
  "get_all_members =
     io_bind get_connection (\<lambda>_.
     io_bind cursor (\<lambda>_.
     io_bind (execute select_members) (\<lambda>rows.
     io_bind cursor_close (\<lambda>_.
     io_bind conn_close (\<lambda>_.
     io_return (map member_row_to_dict rows))))))"

definition search_members_by_name :: "string \<Rightarrow> member_out list io" where
  "search_members_by_name term =
     io_bind get_connection (\<lambda>_.
     io_bind cursor (\<lambda>_.
     io_bind (execute (select_members_ilike (''%'' @ term @ ''%''))) (\<lambda>rows.
     io_bind cursor_close (\<lambda>_.
     io_bind conn_close (\<lambda>_.
     io_return (map member_row_to_dict rows))))))"

definition get_member_id_by_name :: "string \<Rightarrow> uuid option io" where
  "get_member_id_by_name nm =
     io_bind get_connection (\<lambda>_.
     io_bind cursor (\<lambda>_.
     io_bind (execute (select_member_id nm)) (\<lambda>rows.
     io_bind cursor_close (\<lambda>_.
     io_bind conn_close (\<lambda>_.
     io_return (fetchone rows))))))"

text \<open>
  The shape shared by the functions that write: \<^verbatim>\<open>try: body  except Exception:
  conn.rollback(); raise  finally: cur.close(); conn.close()\<close>, after the connection and
  the cursor are opened outside the \<^verbatim>\<open>try\<close>.
\<close>

definition in_transaction :: "'a io \<Rightarrow> 'a io" where
  "in_transaction body =
     io_bind get_connection (\<lambda>_.
     io_bind cursor (\<lambda>_.
     try_finally
       (try_except body (\<lambda>e. io_bind rollback (\<lambda>_. io_raise e)))
       (io_bind cursor_close (\<lambda>_. conn_close))))"

text \<open>The statements inside the \<^verbatim>\<open>try\<close> of \<^verbatim>\<open>create_member\<close>.\<close>

definition create_member_body ::
  "schema \<Rightarrow> string \<Rightarrow> lookup_value option \<Rightarrow> lookup_value option \<Rightarrow> string option \<Rightarrow>
   int option \<Rightarrow> string option \<Rightarrow> string option \<Rightarrow> string option \<Rightarrow> member_out io" where
  "create_member_body sch nm membership_level interview_status gender birthdate phone email
     basic_info =
     io_bind (resolve_lookup_id ''membership_levels'' membership_level) (\<lambda>level_id.
     io_bind (resolve_lookup_id ''interview_statuses'' interview_status) (\<lambda>status_id.
     io_bind (execute (insert_member sch nm level_id status_id gender birthdate phone
                         email basic_info)) (\<lambda>(new_id, new_name).
     io_bind commit (\<lambda>_.
     io_return \<lparr>mo_id = new_id, mo_name = new_name\<rparr>))))"

definition create_member ::
  "schema \<Rightarrow> string \<Rightarrow> lookup_value option \<Rightarrow> lookup_value option \<Rightarrow> string option \<Rightarrow>
   int option \<Rightarrow> string option \<Rightarrow> string option \<Rightarrow> string option \<Rightarrow> member_out io" where
  "create_member sch nm membership_level interview_status gender birthdate phone email
     basic_info =
     in_transaction
       (create_member_body sch nm membership_level interview_status gender birthdate phone
          email basic_info)"

definition delete_member :: "uuid \<Rightarrow> nat io" where
  "delete_member mid =
     in_transaction
       (io_bind (execute (delete_offerings mid)) (\<lambda>_.
        io_bind (execute (delete_member_row mid)) (\<lambda>deleted.
        io_bind commit (\<lambda>_.
        io_return deleted))))"

subsection \<open>Offerings\<close>

definition add_offering ::
  "'f float_ops \<Rightarrow> schema \<Rightarrow> uuid \<Rightarrow> 'f amount \<Rightarrow> string \<Rightarrow> timestamp option \<Rightarrow>
   'f offering_out io" where
  "add_offering ops sch mid amt nt dt =
     in_transaction
       (io_bind (execute (insert_offering sch mid (to_numeric ops amt) nt dt)) (\<lambda>row.
        io_bind commit (\<lambda>_.
        io_return (offering_row_to_dict ops row))))"

text \<open>Here the \<^verbatim>\<open>try\<close> has a \<^verbatim>\<open>finally\<close> and no \<^verbatim>\<open>except\<close>.\<close>

definition get_offerings_for_member :: "'f float_ops \<Rightarrow> uuid \<Rightarrow> 'f offering_log io" where
  "get_offerings_for_member ops mid =
     io_bind get_connection (\<lambda>_.
     io_bind cursor (\<lambda>_.
     try_finally
       (io_bind (execute (select_offerings mid)) (\<lambda>rows.
          let lg = map (offering_row_to_dict ops) rows;
              tot = py_round2 ops (py_sum ops (map (\<lambda>x. or_0 ops (oo_amount x)) lg))
          in io_return \<lparr>ol_member_id = mid, ol_total = tot, ol_log = lg\<rparr>))
       (io_bind cursor_close (\<lambda>_. conn_close))))"

section \<open>The HTTP layer (\<^verbatim>\<open>backend/app.py\<close>)\<close>

text \<open>
  What a handler hands to the framework: a response with its status and body, an
  \<^verbatim>\<open>HTTPException\<close> with its status and detail, or an exception it did not catch. The
  detail is either a text fixed in the source or the text of the exception
  (\<^verbatim>\<open>str(ve)\<close>). The request bodies are the ones pydantic has validated.
\<close>

datatype detail = Generic string | ErrorText error

datatype 'a response = Response nat 'a | HTTPException nat detail | Unhandled error

record member_create =
  mc_name :: string
  mc_membership_level :: "lookup_value option"
  mc_interview_status :: "lookup_value option"
  mc_gender :: "string option"
  mc_birthdate :: "timestamp option"
  mc_phone :: "string option"
  mc_email :: "string option"
  mc_basic_info :: "string option"

record 'f offering_create =
  oc_member_id :: uuid
  oc_amount :: 'f
  oc_note :: "string option"
  oc_donated_at :: "timestamp option"

text \<open>\<^verbatim>\<open>datetime.date()\<close>, with a timestamp in seconds and a date in days.\<close>

definition date_of :: "timestamp \<Rightarrow> int" where
  "date_of t = t div 86400"

text \<open>\<^verbatim>\<open>except ValueError\<close>: of the exceptions above only \<open>UnknownCode\<close> is one.\<close>

definition is_value_error :: "error \<Rightarrow> bool" where
  "is_value_error e = (case e of UnknownCode _ _ \<Rightarrow> True | _ \<Rightarrow> False)"

definition api_get_members :: "world \<Rightarrow> member_out list response \<times> world" where
  "api_get_members w =
     (case get_all_members w of
        (Inr ms, w') \<Rightarrow> (Response 200 ms, w')
      | (Inl e, w') \<Rightarrow> (Unhandled e, w'))"

definition api_search_members :: "string \<Rightarrow> world \<Rightarrow> member_out list response \<times> world" where
  "api_search_members nm w =
     (case search_members_by_name nm w of
        (Inr ms, w') \<Rightarrow> (Response 200 ms, w')
      | (Inl e, w') \<Rightarrow> (Unhandled e, w'))"

definition api_get_member_id :: "string \<Rightarrow> world \<Rightarrow> uuid response \<times> world" where
  "api_get_member_id nm w =
     (case get_member_id_by_name nm w of
        (Inr r, w') \<Rightarrow>
          (case r of
             None \<Rightarrow> (HTTPException 404 (Generic ''Member not found''), w')
           | Some i \<Rightarrow>
               if i = [] then (HTTPException 404 (Generic ''Member not found''), w')
               else (Response 200 i, w'))
      | (Inl e, w') \<Rightarrow> (Unhandled e, w'))"

definition api_add_member :: "schema \<Rightarrow> member_create \<Rightarrow> world \<Rightarrow> member_out response \<times> world" where
  "api_add_member sch member w =
     (case create_member sch (mc_name member) (mc_membership_level member)
             (mc_interview_status member) (mc_gender member)
             (map_option date_of (mc_birthdate member)) (mc_phone member) (mc_email member)
             (mc_basic_info member) w of
        (Inr created, w') \<Rightarrow> (Response 201 created, w')
      | (Inl e, w') \<Rightarrow>
          if is_value_error e then (HTTPException 400 (ErrorText e), w')
          else (HTTPException 500 (Generic ''Failed to create member''), w'))"

definition api_delete_member_ep :: "uuid \<Rightarrow> world \<Rightarrow> unit response \<times> world" where
  "api_delete_member_ep mid w =
     (case delete_member mid w of
        (Inr deleted, w') \<Rightarrow>
          if deleted = 0 then (HTTPException 404 (Generic ''Member not found''), w')
          else (Response 204 (), w')
      | (Inl e, w') \<Rightarrow> (HTTPException 500 (Generic ''Failed to delete member''), w'))"

definition api_add_offering ::
  "'f float_ops \<Rightarrow> schema \<Rightarrow> 'f offering_create \<Rightarrow> world \<Rightarrow> 'f offering_out response \<times> world" where
  "api_add_offering ops sch body w =
     (case add_offering ops sch (oc_member_id body) (AmountFloat (oc_amount body))
             (case oc_note body of None \<Rightarrow> [] | Some t \<Rightarrow> t) (oc_donated_at body) w of
        (Inr created, w') \<Rightarrow> (Response 201 created, w')
      | (Inl e, w') \<Rightarrow> (HTTPException 400 (Generic ''Failed to add offering''), w'))"

definition api_member_offerings ::
  "'f float_ops \<Rightarrow> uuid \<Rightarrow> world \<Rightarrow> 'f offering_log response \<times> world" where
  "api_member_offerings ops mid w =
     (case get_offerings_for_member ops mid w of
        (Inr r, w') \<Rightarrow> (Response 200 r, w')
      | (Inl e, w') \<Rightarrow> (HTTPException 400 (Generic ''Failed to fetch offerings''), w'))"

section \<open>The single-file version (\<^verbatim>\<open>app.py\<close>)\<close>

text \<open>
  The functions of \<^verbatim>\<open>app.py\<close> carry the names of those of \<^verbatim>\<open>backend/db.py\<close>; here they
  have the prefix \<open>app_\<close>. Its \<^verbatim>\<open>get_connection\<close> hands the URL to
  \<^verbatim>\<open>psycopg2.connect\<close> unchecked, which raises when there is none. What the functions
  print is left out, and so is the script at the end of the module.
\<close>

definition app_get_connection :: "unit io" where
  "app_get_connection =
     (\<lambda>w. if database_url w = None then (Inl MissingDsn, w) else connect w)"

definition app_get_offerings_for_member :: "uuid \<Rightarrow> offering_row list io" where
  "app_get_offerings_for_member mid =
     io_bind app_get_connection (\<lambda>_.
     io_bind cursor (\<lambda>_.
     io_bind (execute (select_offerings mid)) (\<lambda>rows.
     io_bind cursor_close (\<lambda>_.
     io_bind conn_close (\<lambda>_.
     io_return rows)))))"

text \<open>
  The connection is opened before the \<^verbatim>\<open>try\<close>. The \<^verbatim>\<open>except\<close> branch rolls back and
  falls through, so the call returns \<^verbatim>\<open>None\<close>, unless the rollback itself raises.
\<close>

definition app_delete_member :: "uuid \<Rightarrow> unit io" where
  "app_delete_member mid =
     io_bind app_get_connection (\<lambda>_.
     io_bind cursor (\<lambda>_.
     try_finally
       (try_except
          (io_bind (execute (delete_offerings mid)) (\<lambda>_.
           io_bind (execute (delete_member_row mid)) (\<lambda>_.
           commit)))
          (\<lambda>e. rollback))
       (io_bind cursor_close (\<lambda>_. conn_close))))"

text \<open>
  \<^verbatim>\<open>create_member(name, level_code, status_code, ...)\<close>: both arguments are codes; the
  result is the inserted row \<^verbatim>\<open>(id, name, membership_level_id, interview_status_id)\<close>, or
  \<^verbatim>\<open>None\<close> after any exception.
\<close>

definition app_create_member ::
  "schema \<Rightarrow> string \<Rightarrow> string \<Rightarrow> string \<Rightarrow> string option \<Rightarrow> int option \<Rightarrow> string option \<Rightarrow>
   string option \<Rightarrow> string option \<Rightarrow> (uuid \<times> string \<times> int \<times> int) option io" where
  "app_create_member sch nm level_code status_code gender birthdate phone email basic_info =
     io_bind app_get_connection (\<lambda>_.
     io_bind cursor (\<lambda>_.
     try_finally
       (try_except
          (io_bind (execute (select_lookup_id ''membership_levels'' level_code)) (\<lambda>rows.
           case fetchone rows of
             None \<Rightarrow> io_raise (UnknownCode ''membership_levels'' level_code)
           | Some membership_level_id \<Rightarrow>
           io_bind (execute (select_lookup_id ''interview_statuses'' status_code)) (\<lambda>rows.
           case fetchone rows of
             None \<Rightarrow> io_raise (UnknownCode ''interview_statuses'' status_code)
           | Some interview_status_id \<Rightarrow>
           io_bind (execute (insert_member sch nm (Some membership_level_id)
                               (Some interview_status_id) gender birthdate phone email
                               basic_info)) (\<lambda>(new_id, new_name).
           io_bind commit (\<lambda>_.
           io_return (Some (new_id, new_name, membership_level_id, interview_status_id)))))))
          (\<lambda>e. io_bind rollback (\<lambda>_. io_return None)))
       (io_bind cursor_close (\<lambda>_. conn_close))))"

text \<open>The body \<^verbatim>\<open>{"status": "deleted"}\<close> is its one value.\<close>

datatype status_body = Status string

definition api_delete_member :: "uuid \<Rightarrow> world \<Rightarrow> status_body response \<times> world" where
  "api_delete_member mid w =
     (case app_delete_member mid w of
        (Inr _, w') \<Rightarrow> (Response 200 (Status ''deleted''), w')
      | (Inl e, w') \<Rightarrow> (Unhandled e, w'))"

section \<open>Sample data\<close>

definition sample_member :: "uuid \<Rightarrow> string \<Rightarrow> timestamp \<Rightarrow> member_row" where
  "sample_member i n t =
     \<lparr>m_id = i, m_name = n, m_membership_level_id = None, m_interview_status_id = None,
      m_gender = None, m_birthdate = None, m_phone = None, m_email = None,
      m_basic_info = None, m_created_at = t\<rparr>"

definition sample_offering :: "int \<Rightarrow> uuid \<Rightarrow> int \<Rightarrow> timestamp \<Rightarrow> offering_row" where
  "sample_offering i m cents t =
     \<lparr>o_id = i, o_member_id = m, o_amount = Some (Decimal cents 2), o_currency = ''TWD'',
      o_donated_at = t, o_note = Some []\<rparr>"

definition sample_db :: db where
  "sample_db =
     \<lparr>members = [sample_member ''m1'' ''Mei'' 10, sample_member ''m2'' ''Al'' 20],
      offerings = [sample_offering 1 ''m1'' 5000 100, sample_offering 2 ''m1'' 2550 200],
      membership_levels = [\<lparr>l_id = 1, l_code = ''visitor''\<rparr>,
                           \<lparr>l_id = 2, l_code = ''participant''\<rparr>],
      interview_statuses = [\<lparr>l_id = 1, l_code = ''undecided''\<rparr>]\<rparr>"

definition sample_world :: world where
  "sample_world =
     \<lparr>database_url = Some ''postgresql://localhost/members'', store_reachable = True,
      store = sample_db, txn = None, open_conns = 0, open_cursors = 0, conn_lost = False,
      fail_at = None, fail_loses_conn = False\<rparr>"

definition sample_schema :: schema where
  "sample_schema =
     \<lparr>new_member_id = (\<lambda>d. ''m-new''), new_offering_id = (\<lambda>d. 1 + int (length (offerings d))),
      current_time = (\<lambda>d. 1000), default_currency = ''TWD''\<rparr>"

text \<open>A stand-in for the floats where a sample needs one: amounts in whole cents.\<close>

definition sample_ops :: "int float_ops" where
  "sample_ops =
     \<lparr>float_of_decimal = (\<lambda>d. case d of Decimal u s \<Rightarrow> u * 100 div 10 ^ s),
      float_of_int = (\<lambda>i. i * 100), float_add = (+), float_round2 = (\<lambda>x. x),
      float_truthy = (\<lambda>x. x \<noteq> 0), numeric_of_float = (\<lambda>x. Decimal x 2)\<rparr>"

section \<open>Vocabulary of the properties\<close>

text \<open>
  A call can work with the store: the URL is set, the store can be reached and answers
  every request.
\<close>

definition healthy :: "world \<Rightarrow> bool" where
  "healthy w \<longleftrightarrow>
     database_url w \<noteq> None \<and> database_url w \<noteq> Some [] \<and> store_reachable w
     \<and> fail_at w = None"

text \<open>The state after the connection and the cursor are opened, and after both are closed.\<close>

definition entered :: "world \<Rightarrow> world" where
  "entered w =
     w\<lparr>txn := None, open_conns := Suc (open_conns w), conn_lost := False,
       open_cursors := Suc (open_cursors w)\<rparr>"

definition released :: "world \<Rightarrow> world" where
  "released w =
     w\<lparr>txn := None, open_conns := open_conns w - 1, open_cursors := open_cursors w - 1\<rparr>"

text \<open>
  The search as the specification words it, for comparison with \<^verbatim>\<open>ILIKE\<close>: the name
  contains the term as a substring, without regard to case.
\<close>

fun starts_with :: "string \<Rightarrow> string \<Rightarrow> bool" where
  "starts_with s [] = True"
| "starts_with [] (t # ts) = False"
| "starts_with (c # s) (t # ts) = (c = t \<and> starts_with s ts)"

fun contains :: "string \<Rightarrow> string \<Rightarrow> bool" where
  "contains [] t = (t = [])"
| "contains (c # s) t = (starts_with (c # s) t \<or> contains s t)"

definition spec_name_matches :: "string \<Rightarrow> string \<Rightarrow> bool" where
  "spec_name_matches nm term = contains (map lower nm) (map lower term)"

text \<open>A term in which no character has a meaning of its own in a \<^verbatim>\<open>LIKE\<close> pattern.\<close>

definition plain :: "string \<Rightarrow> bool" where
  "plain t \<longleftrightarrow> CHR ''%'' \<notin> set t \<and> CHR ''_'' \<notin> set t \<and> CHR 0x5C \<notin> set t"

text \<open>A sequence of statements leaves a component of the state as it was.\<close>

definition preserves :: "(world \<Rightarrow> 'b) \<Rightarrow> 'a io \<Rightarrow> bool" where
  "preserves f m \<longleftrightarrow> (\<forall>w. f (snd (m w)) = f w)"

text \<open>
  A sequence of statements that loses the connection ends with the failure that lost it.
\<close>

definition fails_when_lost :: "'a io \<Rightarrow> bool" where
  "fails_when_lost m \<longleftrightarrow>
     (\<forall>w. \<not> conn_lost w \<longrightarrow> conn_lost (snd (m w)) \<longrightarrow> fst (m w) = Inl StoreFailure)"

text \<open>
  A lookup argument denotes an id of its table: nothing, an id that a row of the table
  has, or the code of a row with that id.
\<close>

definition denotes :: "lookup_row list \<Rightarrow> lookup_value option \<Rightarrow> int option \<Rightarrow> bool" where
  "denotes rows v i =
     (case v of
        None \<Rightarrow> i = None
      | Some (IntVal n) \<Rightarrow> i = Some n \<and> n \<in> set (map l_id rows)
      | Some (StrVal c) \<Rightarrow> (\<exists>r\<in>set rows. l_code r = c \<and> i = Some (l_id r)))"

text \<open>The member row that \<^verbatim>\<open>create_member\<close> has the store insert.\<close>

definition new_member_row ::
  "schema \<Rightarrow> db \<Rightarrow> string \<Rightarrow> int option \<Rightarrow> int option \<Rightarrow> string option \<Rightarrow> int option \<Rightarrow>
   string option \<Rightarrow> string option \<Rightarrow> string option \<Rightarrow> member_row" where
  "new_member_row sch d nm level_id status_id gender birthdate phone email basic_info =
     \<lparr>m_id = new_member_id sch d, m_name = nm, m_membership_level_id = level_id,
      m_interview_status_id = status_id, m_gender = gender, m_birthdate = birthdate,
      m_phone = phone, m_email = email, m_basic_info = basic_info,
      m_created_at = current_time sch d\<rparr>"

section \<open>Properties\<close>

lemma execute_ok:
  "fail_at w = None \<Longrightarrow>
   execute stmt w =
     (case stmt (view w) of
        Inl e \<Rightarrow> (Inl e, w\<lparr>txn := Some (view w)\<rparr>)
      | Inr (r, d') \<Rightarrow> (Inr r, w\<lparr>txn := Some d'\<rparr>))"
  by (simp add: execute_def split: sum.splits)

lemma fetchone_filter_None:
  "fetchone (map f (filter P xs)) = None \<longleftrightarrow> (\<forall>x\<in>set xs. \<not> P x)"
  by (induction xs) (auto simp: fetchone_def)

lemma fetchone_filter_Some:
  "fetchone (map f (filter P xs)) = Some y \<Longrightarrow> \<exists>x\<in>set xs. P x \<and> y = f x"
  by (induction xs) (auto simp: fetchone_def split: if_splits)

text \<open>
  C5. \<^verbatim>\<open>_resolve_lookup_id\<close>: an absent value gives an absent result and an integer is
  returned as it is, in both cases without a look at the store, whatever the table holds;
  a string is looked up by equality of the code in a store that answers: with no such row
  the call raises \<open>UnknownCode\<close>, otherwise it returns the id of a row of the table with
  that code.
\<close>

theorem resolve_lookup_id_cases:
  "resolve_lookup_id table None w = (Inr None, w)
   \<and> resolve_lookup_id table (Some (IntVal n)) w = (Inr (Some n), w)
   \<and> (fail_at w = None \<and> lookup_table table (view w) = Some rows \<longrightarrow>
        ((\<forall>r\<in>set rows. l_code r \<noteq> c) \<longrightarrow>
           fst (resolve_lookup_id table (Some (StrVal c)) w) = Inl (UnknownCode table c))
        \<and> ((\<exists>r\<in>set rows. l_code r = c) \<longrightarrow>
           (\<exists>r\<in>set rows. l_code r = c
              \<and> fst (resolve_lookup_id table (Some (StrVal c)) w) = Inr (Some (l_id r)))))"
proof (intro conjI impI)
  show "resolve_lookup_id table None w = (Inr None, w)"
    by (simp add: resolve_lookup_id_def io_return_def)
  show "resolve_lookup_id table (Some (IntVal n)) w = (Inr (Some n), w)"
    by (simp add: resolve_lookup_id_def io_return_def)
next
  assume h: "fail_at w = None \<and> lookup_table table (view w) = Some rows"
    and none: "\<forall>r\<in>set rows. l_code r \<noteq> c"
  from none have "fetchone (map l_id (filter (\<lambda>r. l_code r = c) rows)) = None"
    using fetchone_filter_None [of l_id "\<lambda>r. l_code r = c" rows] by blast
  with h show "fst (resolve_lookup_id table (Some (StrVal c)) w) = Inl (UnknownCode table c)"
    by (simp add: resolve_lookup_id_def io_bind_def io_raise_def execute_ok
        select_lookup_id_def)
next
  assume h: "fail_at w = None \<and> lookup_table table (view w) = Some rows"
    and some: "\<exists>r\<in>set rows. l_code r = c"
  let ?ids = "map l_id (filter (\<lambda>r. l_code r = c) rows)"
  from some have "fetchone ?ids \<noteq> None"
    using fetchone_filter_None [of l_id "\<lambda>r. l_code r = c" rows] by blast
  then obtain n where n: "fetchone ?ids = Some n" by blast
  then obtain r where r: "r \<in> set rows" "l_code r = c" "n = l_id r"
    using fetchone_filter_Some [of l_id "\<lambda>r. l_code r = c" rows n] by blast
  from h n have "fst (resolve_lookup_id table (Some (StrVal c)) w) = Inr (Some n)"
    by (simp add: resolve_lookup_id_def io_bind_def io_return_def execute_ok
        select_lookup_id_def)
  with r show "\<exists>r\<in>set rows. l_code r = c
      \<and> fst (resolve_lookup_id table (Some (StrVal c)) w) = Inr (Some (l_id r))"
    by blast
qed

theorem resolve_lookup_id_cases_witness:
  "fst (resolve_lookup_id ''membership_levels'' (Some (StrVal ''participant'')) sample_world)
     = Inr (Some 2)
   \<and> fst (resolve_lookup_id ''membership_levels'' (Some (StrVal ''elder'')) sample_world)
     = Inl (UnknownCode ''membership_levels'' ''elder'')"
proof -
  let ?rows = "membership_levels sample_db"
  have h: "fail_at sample_world = None
      \<and> lookup_table ''membership_levels'' (view sample_world) = Some ?rows"
    by (simp add: sample_world_def lookup_table_def view_def)
  have a: "\<forall>r\<in>set ?rows. l_code r \<noteq> ''elder''"
    by (simp add: sample_db_def)
  have b: "\<exists>r\<in>set ?rows. l_code r = ''participant''"
    by (simp add: sample_db_def)
  from resolve_lookup_id_cases [where table = "''membership_levels''" and w = sample_world
      and rows = ?rows and c = "''elder''"] h a
  have 1: "fst (resolve_lookup_id ''membership_levels'' (Some (StrVal ''elder'')) sample_world)
     = Inl (UnknownCode ''membership_levels'' ''elder'')" by blast
  from resolve_lookup_id_cases [where table = "''membership_levels''" and w = sample_world
      and rows = ?rows and c = "''participant''"] h b
  obtain r where "r \<in> set ?rows" "l_code r = ''participant''"
    "fst (resolve_lookup_id ''membership_levels'' (Some (StrVal ''participant'')) sample_world)
       = Inr (Some (l_id r))" by blast
  then have 2: "fst (resolve_lookup_id ''membership_levels'' (Some (StrVal ''participant'')) sample_world)
       = Inr (Some 2)" by (auto simp: sample_db_def)
  from 1 2 show ?thesis by simp
qed

subsection \<open>Frame lemmas\<close>

lemma in_transaction_run:
  assumes "database_url w \<noteq> None" "database_url w \<noteq> Some []" "store_reachable w"
    and "body (entered w) = (r, w2)"
  shows "in_transaction body w =
    ((case r of Inl e \<Rightarrow> if conn_lost w2 then Inl StoreFailure else Inl e | Inr x \<Rightarrow> Inr x),
     released w2)"
proof -
  have start: "in_transaction body w =
    try_finally (try_except body (\<lambda>e. io_bind rollback (\<lambda>_. io_raise e)))
      (io_bind cursor_close (\<lambda>_. conn_close)) (entered w)"
    using assms(1-3)
    by (cases "database_url w")
      (simp_all add: in_transaction_def io_bind_def get_connection_def connect_def connect_def
        cursor_def entered_def)
  show ?thesis
    unfolding start using assms(4)
    by (cases r)
      (simp_all add: try_finally_def try_except_def io_bind_def rollback_def io_raise_def
        cursor_close_def conn_close_def released_def)
qed

lemma in_transaction_refused:
  "database_url w = None \<or> database_url w = Some [] \<Longrightarrow>
   in_transaction body w = (Inl DatabaseUrlNotSet, w)"
  "database_url w \<noteq> None \<Longrightarrow> database_url w \<noteq> Some [] \<Longrightarrow> \<not> store_reachable w \<Longrightarrow>
   in_transaction body w = (Inl StoreFailure, w)"
  by (auto simp: in_transaction_def io_bind_def get_connection_def connect_def connect_def)

lemma in_transaction_snd:
  "snd (in_transaction body w) =
     (if database_url w = None \<or> database_url w = Some [] \<or> \<not> store_reachable w then w
      else released (snd (body (entered w))))"
proof (cases "database_url w = None \<or> database_url w = Some []")
  case True
  then show ?thesis by (auto simp: in_transaction_refused(1))
next
  case url: False
  show ?thesis
  proof (cases "store_reachable w")
    case False
    with url show ?thesis by (auto simp: in_transaction_refused(2))
  next
    case True
    obtain r w2 where b: "body (entered w) = (r, w2)" by (cases "body (entered w)")
    from url True in_transaction_run [where body = body and w = w, OF _ _ _ b]
    show ?thesis by (auto simp: b)
  qed
qed

lemma view_entered [simp]: "view (entered w) = store w"
  by (simp add: view_def entered_def)

lemma store_entered [simp]: "store (entered w) = store w"
  by (simp add: entered_def)

lemma store_released [simp]: "store (released w) = store w"
  by (simp add: released_def)

lemma fail_at_entered [simp]: "fail_at (entered w) = fail_at w"
  by (simp add: entered_def)

lemma conn_lost_entered [simp]: "\<not> conn_lost (entered w)"
  by (simp add: entered_def)

lemma released_fields [simp]:
  "txn (released w) = None" "open_conns (released w) = open_conns w - 1"
  "open_cursors (released w) = open_cursors w - 1" "fail_at (released w) = fail_at w"
  "database_url (released w) = database_url w"
  by (simp_all add: released_def)

lemma store_execute: "store (snd (execute stmt w)) = store w"
  by (auto simp: execute_def Let_def split: option.splits nat.splits sum.splits prod.splits)

lemma conns_execute:
  "open_conns (snd (execute stmt w)) = open_conns w"
  "open_cursors (snd (execute stmt w)) = open_cursors w"
  "database_url (snd (execute stmt w)) = database_url w"
  by (auto simp: execute_def Let_def split: option.splits nat.splits sum.splits prod.splits)

lemma execute_txn_view: "execute stmt (w\<lparr>txn := Some (view w)\<rparr>) = execute stmt w"
  by (simp add: execute_def view_def Let_def split: option.splits nat.splits sum.splits)

subsection \<open>What a sequence of statements leaves as it was\<close>

lemma preserves_return: "preserves f (io_return x)"
  by (simp add: preserves_def io_return_def)

lemma preserves_raise: "preserves f (io_raise e)"
  by (simp add: preserves_def io_raise_def)

lemma preserves_bind:
  assumes "preserves f m" "\<And>x. preserves f (g x)"
  shows "preserves f (io_bind m g)"
proof -
  have "f (snd (io_bind m g w)) = f w" for w
  proof (cases "m w")
    case (Pair r w')
    with assms(1) have w': "f w' = f w" by (auto simp: preserves_def dest: spec [of _ w])
    show ?thesis
    proof (cases r)
      case (Inl e)
      with Pair w' show ?thesis by (simp add: io_bind_def)
    next
      case (Inr x)
      from assms(2) [of x] have "f (snd (g x w')) = f w'" by (simp add: preserves_def)
      with Pair Inr w' show ?thesis by (simp add: io_bind_def)
    qed
  qed
  then show ?thesis by (simp add: preserves_def)
qed

lemma preserves_execute:
  "preserves store (execute stmt)" "preserves open_conns (execute stmt)"
  "preserves open_cursors (execute stmt)" "preserves database_url (execute stmt)"
  by (auto simp: preserves_def execute_def Let_def
      split: option.splits nat.splits sum.splits prod.splits)

lemma preserves_commit:
  "preserves open_conns commit" "preserves open_cursors commit"
  "preserves database_url commit"
  by (auto simp: preserves_def commit_def split: option.splits nat.splits)

lemma preserves_resolve:
  "preserves store (resolve_lookup_id t v)" "preserves open_conns (resolve_lookup_id t v)"
  "preserves open_cursors (resolve_lookup_id t v)"
  by (auto simp: resolve_lookup_id_def split: option.splits lookup_value.splits
      intro!: preserves_return preserves_raise preserves_bind preserves_execute)

lemma preservesD: "preserves f m \<Longrightarrow> f (snd (m w)) = f w"
  by (simp add: preserves_def)

subsection \<open>A lost connection\<close>

lemma fails_when_lost_return: "fails_when_lost (io_return x)"
  by (simp add: fails_when_lost_def io_return_def)

lemma fails_when_lost_raise: "fails_when_lost (io_raise e)"
  by (simp add: fails_when_lost_def io_raise_def)

lemma fails_when_lost_execute: "fails_when_lost (execute stmt)"
  by (auto simp: fails_when_lost_def execute_def Let_def
      split: option.splits nat.splits sum.splits prod.splits)

lemma fails_when_lost_commit: "fails_when_lost commit"
  by (auto simp: fails_when_lost_def commit_def split: option.splits nat.splits)

lemma fails_when_lost_bind:
  assumes "fails_when_lost m" "\<And>x. fails_when_lost (g x)"
  shows "fails_when_lost (io_bind m g)"
proof -
  have "fst (io_bind m g w) = Inl StoreFailure"
    if w: "\<not> conn_lost w" and l: "conn_lost (snd (io_bind m g w))" for w
  proof (cases "m w")
    case (Pair r w')
    show ?thesis
    proof (cases r)
      case (Inl e)
      with Pair l have "conn_lost (snd (m w))" by (simp add: io_bind_def)
      with assms(1) w have "fst (m w) = Inl StoreFailure" by (simp add: fails_when_lost_def)
      with Pair Inl show ?thesis by (simp add: io_bind_def)
    next
      case (Inr x)
      have "\<not> conn_lost w'"
      proof
        assume "conn_lost w'"
        with Pair have "conn_lost (snd (m w))" by simp
        with assms(1) w have "fst (m w) = Inl StoreFailure" by (simp add: fails_when_lost_def)
        with Pair Inr show False by simp
      qed
      moreover from Pair Inr l have "conn_lost (snd (g x w'))" by (simp add: io_bind_def)
      ultimately have "fst (g x w') = Inl StoreFailure"
        using assms(2) [of x] by (simp add: fails_when_lost_def)
      with Pair Inr show ?thesis by (simp add: io_bind_def)
    qed
  qed
  then show ?thesis by (simp add: fails_when_lost_def)
qed

lemma fails_when_lost_resolve: "fails_when_lost (resolve_lookup_id t v)"
  by (auto simp: resolve_lookup_id_def split: option.splits lookup_value.splits
      intro!: fails_when_lost_return fails_when_lost_raise fails_when_lost_bind
        fails_when_lost_execute)

text \<open>
  The shape of \<^verbatim>\<open>create_member\<close>, \<^verbatim>\<open>delete_member\<close> and \<^verbatim>\<open>add_offering\<close>: the outcome
  of the statements, and the state after the connection is released.
\<close>

lemma in_transaction_eq:
  assumes "fails_when_lost body"
  shows "in_transaction body w =
     (if database_url w = None \<or> database_url w = Some [] then (Inl DatabaseUrlNotSet, w)
      else if \<not> store_reachable w then (Inl StoreFailure, w)
      else (fst (body (entered w)), released (snd (body (entered w)))))"
proof (cases "database_url w = None \<or> database_url w = Some []")
  case True
  then show ?thesis by (auto simp: in_transaction_refused(1))
next
  case url: False
  show ?thesis
  proof (cases "store_reachable w")
    case False
    with url show ?thesis by (auto simp: in_transaction_refused(2))
  next
    case True
    obtain r w2 where b: "body (entered w) = (r, w2)" by (cases "body (entered w)")
    have "r = Inl StoreFailure" if "conn_lost w2"
    proof -
      from assms have "\<not> conn_lost (entered w) \<longrightarrow> conn_lost (snd (body (entered w)))
          \<longrightarrow> fst (body (entered w)) = Inl StoreFailure"
        unfolding fails_when_lost_def by blast
      with that b show ?thesis by simp
    qed
    then have "(case r of Inl e \<Rightarrow> if conn_lost w2 then Inl StoreFailure else Inl e
        | Inr x \<Rightarrow> Inr x) = r"
      by (cases r) auto
    with url True in_transaction_run [where body = body and w = w, OF _ _ _ b]
    show ?thesis by (auto simp: b)
  qed
qed

lemma create_member_eq:
  "create_member sch nm lv sv g b p em bi w =
     (if database_url w = None \<or> database_url w = Some [] then (Inl DatabaseUrlNotSet, w)
      else if \<not> store_reachable w then (Inl StoreFailure, w)
      else (fst (create_member_body sch nm lv sv g b p em bi (entered w)),
            released (snd (create_member_body sch nm lv sv g b p em bi (entered w)))))"
  unfolding create_member_def
  by (rule in_transaction_eq)
    (auto simp: create_member_body_def
      intro!: fails_when_lost_bind fails_when_lost_resolve fails_when_lost_execute
        fails_when_lost_commit fails_when_lost_return)

lemma delete_member_eq:
  "delete_member mid w =
     (if database_url w = None \<or> database_url w = Some [] then (Inl DatabaseUrlNotSet, w)
      else if \<not> store_reachable w then (Inl StoreFailure, w)
      else (fst ((io_bind (execute (delete_offerings mid)) (\<lambda>_.
                  io_bind (execute (delete_member_row mid)) (\<lambda>deleted.
                  io_bind commit (\<lambda>_.
                  io_return deleted)))) (entered w)),
            released (snd ((io_bind (execute (delete_offerings mid)) (\<lambda>_.
                  io_bind (execute (delete_member_row mid)) (\<lambda>deleted.
                  io_bind commit (\<lambda>_.
                  io_return deleted)))) (entered w)))))"
  unfolding delete_member_def
  by (rule in_transaction_eq)
    (auto intro!: fails_when_lost_bind fails_when_lost_execute fails_when_lost_commit
        fails_when_lost_return)

lemma add_offering_eq:
  "add_offering ops sch mid amt nt dt w =
     (if database_url w = None \<or> database_url w = Some [] then (Inl DatabaseUrlNotSet, w)
      else if \<not> store_reachable w then (Inl StoreFailure, w)
      else (fst ((io_bind (execute (insert_offering sch mid (to_numeric ops amt) nt dt))
                  (\<lambda>row.
                  io_bind commit (\<lambda>_.
                  io_return (offering_row_to_dict ops row)))) (entered w)),
            released (snd ((io_bind (execute (insert_offering sch mid (to_numeric ops amt) nt dt))
                  (\<lambda>row.
                  io_bind commit (\<lambda>_.
                  io_return (offering_row_to_dict ops row)))) (entered w)))))"
  unfolding add_offering_def
  by (rule in_transaction_eq)
    (auto intro!: fails_when_lost_bind fails_when_lost_execute fails_when_lost_commit
        fails_when_lost_return)

subsection \<open>Lookup resolution\<close>

lemma store_resolve: "store (snd (resolve_lookup_id t v w)) = store w"
  by (rule preservesD) (rule preserves_resolve)

lemma view_resolve: "view (snd (resolve_lookup_id t v w)) = view w"
  by (auto simp: resolve_lookup_id_def io_return_def io_raise_def io_bind_def execute_def
      select_lookup_id_def view_def Let_def
      split: option.splits lookup_value.splits prod.splits sum.splits nat.splits)

lemma fail_at_resolve_healthy:
  "fail_at w = None \<Longrightarrow> fail_at (snd (resolve_lookup_id t v w)) = None"
  by (auto simp: resolve_lookup_id_def io_return_def io_raise_def io_bind_def execute_ok
      split: option.splits lookup_value.splits prod.splits sum.splits)

lemma resolve_unknown_fails:
  assumes "lookup_table t (view w) = Some rows" "\<forall>r\<in>set rows. l_code r \<noteq> c"
  shows "\<exists>e. fst (resolve_lookup_id t (Some (StrVal c)) w) = Inl e"
proof -
  from assms(2) have "fetchone (map l_id (filter (\<lambda>r. l_code r = c) rows)) = None"
    using fetchone_filter_None [of l_id "\<lambda>r. l_code r = c" rows] by blast
  with assms(1) show ?thesis
    by (auto simp: resolve_lookup_id_def io_raise_def io_bind_def execute_def
        select_lookup_id_def Let_def split: option.splits nat.splits)
qed

lemma resolve_unknown_healthy:
  assumes "fail_at w = None" "lookup_table t (view w) = Some rows"
    "\<forall>r\<in>set rows. l_code r \<noteq> c"
  shows "fst (resolve_lookup_id t (Some (StrVal c)) w) = Inl (UnknownCode t c)"
proof -
  from assms(3) have "fetchone (map l_id (filter (\<lambda>r. l_code r = c) rows)) = None"
    using fetchone_filter_None [of l_id "\<lambda>r. l_code r = c" rows] by blast
  with assms(1,2) show ?thesis
    by (simp add: resolve_lookup_id_def io_bind_def io_raise_def execute_ok
        select_lookup_id_def)
qed

lemma resolve_healthy_error:
  "fail_at w = None \<Longrightarrow> lookup_table t (view w) \<noteq> None \<Longrightarrow>
   fst (resolve_lookup_id t v w) = Inl e \<Longrightarrow> \<exists>c. e = UnknownCode t c"
  by (auto simp: resolve_lookup_id_def io_return_def io_raise_def io_bind_def execute_ok
      select_lookup_id_def
      split: option.splits lookup_value.splits prod.splits sum.splits)

lemma unique_code_ids:
  "distinct (map l_code rows) \<Longrightarrow> r \<in> set rows \<Longrightarrow>
   map l_id (filter (\<lambda>x. l_code x = l_code r) rows) = [l_id r]"
proof (induction rows)
  case Nil
  then show ?case by simp
next
  case (Cons a rows)
  show ?case
  proof (cases "a = r")
    case True
    from Cons.prems(1) have "l_code a \<notin> l_code ` set rows" by simp
    then have "\<forall>x\<in>set rows. l_code x \<noteq> l_code a" by (metis imageI)
    then have "filter (\<lambda>x. l_code x = l_code a) rows = []" by (simp add: filter_empty_conv)
    with True show ?thesis by simp
  next
    case False
    with Cons.prems have r: "r \<in> set rows" by simp
    with Cons.prems(1) have "l_code a \<noteq> l_code r" by force
    with Cons r show ?thesis by simp
  qed
qed

lemma resolve_known_healthy:
  assumes "fail_at w = None" "lookup_table t (view w) = Some rows"
    "distinct (map l_code rows)" "r \<in> set rows"
  shows "resolve_lookup_id t (Some (StrVal (l_code r))) w
    = (Inr (Some (l_id r)), w\<lparr>txn := Some (view w)\<rparr>)"
  using assms unique_code_ids [of rows r]
  by (simp add: resolve_lookup_id_def io_bind_def io_return_def execute_ok select_lookup_id_def
      fetchone_def)

subsection \<open>Creating a member\<close>

lemma create_member_body_unknown:
  assumes "(\<exists>c. lv = Some (StrVal c) \<and> (\<forall>r\<in>set (membership_levels (view w)). l_code r \<noteq> c))
     \<or> (\<exists>c. sv = Some (StrVal c) \<and> (\<forall>r\<in>set (interview_statuses (view w)). l_code r \<noteq> c))"
  shows "(\<exists>e. fst (create_member_body sch nm lv sv g b p em bi w) = Inl e)
     \<and> store (snd (create_member_body sch nm lv sv g b p em bi w)) = store w
     \<and> (fail_at w = None \<longrightarrow>
          (\<exists>t c. fst (create_member_body sch nm lv sv g b p em bi w) = Inl (UnknownCode t c)))"
proof (cases "resolve_lookup_id ''membership_levels'' lv w")
  case (Pair r1 w1)
  have s1: "store w1 = store w"
    using store_resolve [of "''membership_levels''" lv w] Pair by simp
  have v1: "view w1 = view w"
    using view_resolve [of "''membership_levels''" lv w] Pair by simp
  show ?thesis
  proof (cases r1)
    case (Inl e)
    have "fail_at w = None \<Longrightarrow> \<exists>c. e = UnknownCode ''membership_levels'' c"
      using resolve_healthy_error [of w "''membership_levels''" lv e] Pair Inl
      by (simp add: lookup_table_def)
    with Pair Inl s1 show ?thesis
      by (auto simp: create_member_body_def io_bind_def)
  next
    case (Inr level_id)
    with Pair have ok: "fst (resolve_lookup_id ''membership_levels'' lv w) = Inr level_id"
      by simp
    have "\<not> (\<exists>c. lv = Some (StrVal c)
        \<and> (\<forall>r\<in>set (membership_levels (view w)). l_code r \<noteq> c))"
    proof
      assume "\<exists>c. lv = Some (StrVal c)
        \<and> (\<forall>r\<in>set (membership_levels (view w)). l_code r \<noteq> c)"
      then obtain c where "lv = Some (StrVal c)"
        "\<forall>r\<in>set (membership_levels (view w)). l_code r \<noteq> c"
        by blast
      then have "\<exists>e. fst (resolve_lookup_id ''membership_levels'' lv w) = Inl e"
        using resolve_unknown_fails
          [of "''membership_levels''" w "membership_levels (view w)" c]
        by (simp add: lookup_table_def)
      with ok show False by simp
    qed
    with assms obtain c where c: "sv = Some (StrVal c)"
      "\<forall>r\<in>set (interview_statuses (view w1)). l_code r \<noteq> c" using v1 by auto
    have tab: "lookup_table ''interview_statuses'' (view w1)
        = Some (interview_statuses (view w1))"
      by (simp add: lookup_table_def)
    from resolve_unknown_fails [OF tab c(2)] obtain e where
      e: "fst (resolve_lookup_id ''interview_statuses'' sv w1) = Inl e" using c(1) by auto
    have s2: "store (snd (resolve_lookup_id ''interview_statuses'' sv w1)) = store w"
      using store_resolve [of "''interview_statuses''" sv w1] s1 by simp
    have f1: "fail_at w = None \<Longrightarrow> fail_at w1 = None"
      using fail_at_resolve_healthy [of w "''membership_levels''" lv] Pair by simp
    have h: "fail_at w = None \<Longrightarrow> e = UnknownCode ''interview_statuses'' c"
      using resolve_unknown_healthy [OF _ tab c(2)] f1 e c(1) by simp
    from Pair Inr e s2 h show ?thesis
      by (cases "resolve_lookup_id ''interview_statuses'' sv w1")
        (auto simp: create_member_body_def io_bind_def)
  qed
qed

text \<open>
  C1. When \<^verbatim>\<open>membership_level\<close> or \<^verbatim>\<open>interview_status\<close> is a string that is the code of
  no row of its lookup table, \<^verbatim>\<open>create_member\<close> of \<^verbatim>\<open>backend/db.py\<close> raises, and the
  committed data are what they were before the call, whatever the store does meanwhile:
  no member row is persisted. When the call can work with the store, the exception is
  \<open>UnknownCode\<close>, no transaction is left open and the connection is closed again.
\<close>

theorem create_member_unknown_code:
  assumes "(\<exists>c. membership_level = Some (StrVal c)
              \<and> (\<forall>r\<in>set (membership_levels (store w)). l_code r \<noteq> c))
         \<or> (\<exists>c. interview_status = Some (StrVal c)
              \<and> (\<forall>r\<in>set (interview_statuses (store w)). l_code r \<noteq> c))"
  shows "(\<exists>e. fst (create_member sch nm membership_level interview_status g b p em bi w) = Inl e)
     \<and> store (snd (create_member sch nm membership_level interview_status g b p em bi w))
         = store w
     \<and> (healthy w \<longrightarrow>
          (\<exists>t c. fst (create_member sch nm membership_level interview_status g b p em bi w)
                 = Inl (UnknownCode t c))
          \<and> txn (snd (create_member sch nm membership_level interview_status g b p em bi w))
              = None
          \<and> open_conns (snd (create_member sch nm membership_level interview_status g b p em
                               bi w))
              = open_conns w)"
proof -
  let ?body = "create_member_body sch nm membership_level interview_status g b p em bi"
  from assms have "(\<exists>c. membership_level = Some (StrVal c)
              \<and> (\<forall>r\<in>set (membership_levels (view (entered w))). l_code r \<noteq> c))
         \<or> (\<exists>c. interview_status = Some (StrVal c)
              \<and> (\<forall>r\<in>set (interview_statuses (view (entered w))). l_code r \<noteq> c))"
    by simp
  from create_member_body_unknown [OF this, of sch nm g b p em bi]
  have body: "\<exists>e. fst (?body (entered w)) = Inl e"
    "store (snd (?body (entered w))) = store w"
    "fail_at w = None \<longrightarrow> (\<exists>t c. fst (?body (entered w)) = Inl (UnknownCode t c))"
    by simp_all
  have "preserves open_conns ?body"
    by (auto simp: create_member_body_def
        intro!: preserves_bind preserves_resolve preserves_execute preserves_commit
          preserves_return)
  then have conns: "open_conns (snd (?body (entered w))) = Suc (open_conns w)"
    by (simp add: preservesD entered_def)
  from body conns show ?thesis
    by (auto simp: create_member_eq healthy_def)
qed

theorem create_member_unknown_code_witness:
  "''elder'' \<notin> set (map l_code (membership_levels (store sample_world)))
   \<and> healthy sample_world
   \<and> store (snd (create_member sample_schema ''Ann'' (Some (StrVal ''elder'')) None None None
                   None None None sample_world)) = sample_db
   \<and> (\<exists>t c. fst (create_member sample_schema ''Ann'' (Some (StrVal ''elder'')) None None None
                   None None None sample_world) = Inl (UnknownCode t c))"
proof -
  have a: "\<forall>r\<in>set (membership_levels (store sample_world)). l_code r \<noteq> ''elder''"
    by (simp add: sample_world_def sample_db_def)
  have n: "''elder'' \<notin> set (map l_code (membership_levels (store sample_world)))"
    by (simp add: sample_world_def sample_db_def)
  have h: "healthy sample_world"
    by (simp add: healthy_def sample_world_def)
  have d: "(\<exists>c. Some (StrVal ''elder'') = Some (StrVal c)
              \<and> (\<forall>r\<in>set (membership_levels (store sample_world)). l_code r \<noteq> c))
         \<or> (\<exists>c. (None :: lookup_value option) = Some (StrVal c)
              \<and> (\<forall>r\<in>set (interview_statuses (store sample_world)). l_code r \<noteq> c))"
    using a by simp
  from create_member_unknown_code [OF d, of sample_schema "''Ann''" None None None None None] h
  have "store (snd (create_member sample_schema ''Ann'' (Some (StrVal ''elder'')) None None None
                   None None None sample_world)) = store sample_world
   \<and> (\<exists>t c. fst (create_member sample_schema ''Ann'' (Some (StrVal ''elder'')) None None None
                   None None None sample_world) = Inl (UnknownCode t c))"
    by simp
  moreover have "store sample_world = sample_db"
    by (simp add: sample_world_def)
  ultimately show ?thesis using n h by simp
qed

lemma create_member_body_txn_view:
  "create_member_body sch nm (Some (IntVal n)) sv g b p em bi (w\<lparr>txn := Some (view w)\<rparr>)
   = create_member_body sch nm (Some (IntVal n)) sv g b p em bi w"
  by (cases sv rule: option.exhaust [case_names None Some])
    (auto simp: create_member_body_def resolve_lookup_id_def io_bind_def io_return_def
      execute_txn_view split: lookup_value.splits)

lemma create_member_body_level_code:
  assumes "fail_at w = None" "distinct (map l_code (membership_levels (view w)))"
    "r \<in> set (membership_levels (view w))"
  shows "create_member_body sch nm (Some (StrVal (l_code r))) sv g b p em bi w
    = create_member_body sch nm (Some (IntVal (l_id r))) sv g b p em bi w"
proof -
  have tab: "lookup_table ''membership_levels'' (view w) = Some (membership_levels (view w))"
    by (simp add: lookup_table_def)
  have "create_member_body sch nm (Some (StrVal (l_code r))) sv g b p em bi w
    = create_member_body sch nm (Some (IntVal (l_id r))) sv g b p em bi
        (w\<lparr>txn := Some (view w)\<rparr>)"
    using resolve_known_healthy [OF assms(1) tab assms(2,3)]
    by (simp add: create_member_body_def io_bind_def resolve_lookup_id_def [of _ "Some (IntVal _)"]
        io_return_def)
  then show ?thesis by (simp add: create_member_body_txn_view)
qed

lemma create_member_body_status_code:
  assumes "fail_at w = None" "distinct (map l_code (interview_statuses (view w)))"
    "r \<in> set (interview_statuses (view w))"
  shows "create_member_body sch nm lv (Some (StrVal (l_code r))) g b p em bi w
    = create_member_body sch nm lv (Some (IntVal (l_id r))) g b p em bi w"
proof (cases "resolve_lookup_id ''membership_levels'' lv w")
  case (Pair r1 w1)
  have v1: "view w1 = view w"
    using view_resolve [of "''membership_levels''" lv w] Pair by simp
  have f1: "fail_at w1 = None"
    using fail_at_resolve_healthy [OF assms(1), of "''membership_levels''" lv] Pair by simp
  have tab: "lookup_table ''interview_statuses'' (view w1) = Some (interview_statuses (view w))"
    by (simp add: lookup_table_def v1)
  have known: "resolve_lookup_id ''interview_statuses'' (Some (StrVal (l_code r))) w1
      = (Inr (Some (l_id r)), w1\<lparr>txn := Some (view w1)\<rparr>)"
    using resolve_known_healthy [OF f1 tab assms(2,3)] .
  show ?thesis
  proof (cases r1)
    case (Inl e)
    with Pair show ?thesis by (simp add: create_member_body_def io_bind_def)
  next
    case (Inr level_id)
    with Pair known show ?thesis
      by (simp add: create_member_body_def io_bind_def
          resolve_lookup_id_def [of _ "Some (IntVal _)"] io_return_def execute_txn_view)
  qed
qed

lemma denotes_fk_ok: "denotes rows v i \<Longrightarrow> fk_ok rows i"
  by (auto simp: denotes_def fk_ok_def split: option.splits lookup_value.splits)

lemma resolve_denoted:
  assumes "fail_at w = None" "lookup_table t (view w) = Some rows"
    "distinct (map l_code rows)" "denotes rows v i"
  shows "fst (resolve_lookup_id t v w) = Inr i"
proof (cases v)
  case None
  with assms(4) show ?thesis
    by (simp add: denotes_def resolve_lookup_id_def io_return_def)
next
  case (Some a)
  show ?thesis
  proof (cases a)
    case (IntVal n)
    with Some assms(4) show ?thesis
      by (simp add: denotes_def resolve_lookup_id_def io_return_def)
  next
    case (StrVal c)
    with Some assms(4) obtain r where r: "r \<in> set rows" "l_code r = c" "i = Some (l_id r)"
      by (auto simp: denotes_def)
    from resolve_known_healthy [OF assms(1,2,3) r(1)] r(2,3) Some StrVal
    show ?thesis by simp
  qed
qed

lemma insert_and_commit:
  assumes "fail_at w = None" "fk_ok (membership_levels (view w)) lid"
    "fk_ok (interview_statuses (view w)) sid"
  shows "fst (io_bind (execute (insert_member sch nm lid sid g b p em bi))
                (\<lambda>(new_id, new_name). io_bind commit (\<lambda>_.
                   io_return \<lparr>mo_id = new_id, mo_name = new_name\<rparr>)) w)
      = Inr \<lparr>mo_id = new_member_id sch (view w), mo_name = nm\<rparr>"
    and "store (snd (io_bind (execute (insert_member sch nm lid sid g b p em bi))
                (\<lambda>(new_id, new_name). io_bind commit (\<lambda>_.
                   io_return \<lparr>mo_id = new_id, mo_name = new_name\<rparr>)) w))
      = (view w)\<lparr>members := members (view w)
            @ [new_member_row sch (view w) nm lid sid g b p em bi]\<rparr>"
  using assms
  by (simp_all add: io_bind_def execute_ok insert_member_def commit_def io_return_def
      new_member_row_def view_def Let_def)

lemma create_member_body_denoted:
  assumes "fail_at w = None"
    "distinct (map l_code (membership_levels (view w)))"
    "distinct (map l_code (interview_statuses (view w)))"
    "denotes (membership_levels (view w)) lv lid"
    "denotes (interview_statuses (view w)) sv sid"
  shows "fst (create_member_body sch nm lv sv g b p em bi w)
      = Inr \<lparr>mo_id = new_member_id sch (view w), mo_name = nm\<rparr>
    \<and> store (snd (create_member_body sch nm lv sv g b p em bi w))
      = (view w)\<lparr>members := members (view w)
            @ [new_member_row sch (view w) nm lid sid g b p em bi]\<rparr>"
proof -
  obtain r1 w1 where 1: "resolve_lookup_id ''membership_levels'' lv w = (r1, w1)"
    by (cases "resolve_lookup_id ''membership_levels'' lv w")
  have tab1: "lookup_table ''membership_levels'' (view w) = Some (membership_levels (view w))"
    by (simp add: lookup_table_def)
  have r1: "r1 = Inr lid"
    using resolve_denoted [OF assms(1) tab1 assms(2,4)] 1 by simp
  have v1: "view w1 = view w"
    using view_resolve [of "''membership_levels''" lv w] 1 by simp
  have f1: "fail_at w1 = None"
    using fail_at_resolve_healthy [OF assms(1), of "''membership_levels''" lv] 1 by simp
  obtain r2 w2 where 2: "resolve_lookup_id ''interview_statuses'' sv w1 = (r2, w2)"
    by (cases "resolve_lookup_id ''interview_statuses'' sv w1")
  have tab2: "lookup_table ''interview_statuses'' (view w1)
      = Some (interview_statuses (view w))"
    by (simp add: lookup_table_def v1)
  have r2: "r2 = Inr sid"
    using resolve_denoted [OF f1 tab2 assms(3,5)] 2 by simp
  have v2: "view w2 = view w"
    using view_resolve [of "''interview_statuses''" sv w1] 2 v1 by simp
  have f2: "fail_at w2 = None"
    using fail_at_resolve_healthy [OF f1, of "''interview_statuses''" sv] 2 by simp
  have fk: "fk_ok (membership_levels (view w2)) lid" "fk_ok (interview_statuses (view w2)) sid"
    using denotes_fk_ok [OF assms(4)] denotes_fk_ok [OF assms(5)] v2 by simp_all
  have "create_member_body sch nm lv sv g b p em bi w
      = io_bind (execute (insert_member sch nm lid sid g b p em bi))
          (\<lambda>(new_id, new_name). io_bind commit (\<lambda>_.
             io_return \<lparr>mo_id = new_id, mo_name = new_name\<rparr>)) w2"
    using 1 2 r1 r2 by (simp add: create_member_body_def io_bind_def)
  with insert_and_commit [OF f2 fk, of sch nm g b p em bi] v2 show ?thesis
    by simp
qed

text \<open>
  C6. In a run that can work with the store, where the codes of a lookup table are
  unique: \<^verbatim>\<open>create_member\<close> called with the code of a row of the table and called with
  the id of that row give the same result and leave the same state. This holds for
  \<^verbatim>\<open>membership_level\<close> and for \<^verbatim>\<open>interview_status\<close>, whatever the other argument is.
  And a member is persisted: when each argument is absent, the id of a row or the code
  of a row, the call returns the new member's id and name, and the committed data are
  the data before the call with one member row more, whose \<^verbatim>\<open>membership_level_id\<close> and
  \<^verbatim>\<open>interview_status_id\<close> are the ids the arguments denote, the same for a code as for
  the id of its row.
\<close>

theorem create_member_code_or_id:
  assumes "healthy w"
  shows "(distinct (map l_code (membership_levels (store w)))
          \<and> r \<in> set (membership_levels (store w)) \<longrightarrow>
          create_member sch nm (Some (StrVal (l_code r))) sv g b p em bi w
            = create_member sch nm (Some (IntVal (l_id r))) sv g b p em bi w)
     \<and> (distinct (map l_code (interview_statuses (store w)))
          \<and> r \<in> set (interview_statuses (store w)) \<longrightarrow>
          create_member sch nm lv (Some (StrVal (l_code r))) g b p em bi w
            = create_member sch nm lv (Some (IntVal (l_id r))) g b p em bi w)
     \<and> (distinct (map l_code (membership_levels (store w)))
          \<and> distinct (map l_code (interview_statuses (store w)))
          \<and> denotes (membership_levels (store w)) lv lid
          \<and> denotes (interview_statuses (store w)) sv sid \<longrightarrow>
          fst (create_member sch nm lv sv g b p em bi w)
            = Inr \<lparr>mo_id = new_member_id sch (store w), mo_name = nm\<rparr>
          \<and> store (snd (create_member sch nm lv sv g b p em bi w))
            = (store w)\<lparr>members := members (store w)
                  @ [new_member_row sch (store w) nm lid sid g b p em bi]\<rparr>)"
proof (intro conjI impI)
  assume "distinct (map l_code (membership_levels (store w)))
    \<and> r \<in> set (membership_levels (store w))"
  then have "create_member_body sch nm (Some (StrVal (l_code r))) sv g b p em bi (entered w)
    = create_member_body sch nm (Some (IntVal (l_id r))) sv g b p em bi (entered w)"
    using assms by (intro create_member_body_level_code) (simp_all add: healthy_def)
  then show "create_member sch nm (Some (StrVal (l_code r))) sv g b p em bi w
            = create_member sch nm (Some (IntVal (l_id r))) sv g b p em bi w"
    by (simp add: create_member_eq)
next
  assume "distinct (map l_code (interview_statuses (store w)))
    \<and> r \<in> set (interview_statuses (store w))"
  then have "create_member_body sch nm lv (Some (StrVal (l_code r))) g b p em bi (entered w)
    = create_member_body sch nm lv (Some (IntVal (l_id r))) g b p em bi (entered w)"
    using assms by (intro create_member_body_status_code) (simp_all add: healthy_def)
  then show "create_member sch nm lv (Some (StrVal (l_code r))) g b p em bi w
            = create_member sch nm lv (Some (IntVal (l_id r))) g b p em bi w"
    by (simp add: create_member_eq)
next
  assume a: "distinct (map l_code (membership_levels (store w)))
          \<and> distinct (map l_code (interview_statuses (store w)))
          \<and> denotes (membership_levels (store w)) lv lid
          \<and> denotes (interview_statuses (store w)) sv sid"
  have "fst (create_member_body sch nm lv sv g b p em bi (entered w))
      = Inr \<lparr>mo_id = new_member_id sch (view (entered w)), mo_name = nm\<rparr>
    \<and> store (snd (create_member_body sch nm lv sv g b p em bi (entered w)))
      = (view (entered w))\<lparr>members := members (view (entered w))
            @ [new_member_row sch (view (entered w)) nm lid sid g b p em bi]\<rparr>"
    using assms a by (intro create_member_body_denoted) (simp_all add: healthy_def)
  with assms
  show "fst (create_member sch nm lv sv g b p em bi w)
            = Inr \<lparr>mo_id = new_member_id sch (store w), mo_name = nm\<rparr>"
    and "store (snd (create_member sch nm lv sv g b p em bi w))
            = (store w)\<lparr>members := members (store w)
                  @ [new_member_row sch (store w) nm lid sid g b p em bi]\<rparr>"
    by (auto simp: create_member_eq healthy_def)
qed

theorem create_member_code_or_id_witness:
  "healthy sample_world
   \<and> create_member sample_schema ''Ann'' (Some (StrVal ''participant'')) None None None None
        None None sample_world
     = create_member sample_schema ''Ann'' (Some (IntVal 2)) None None None None None None
        sample_world
   \<and> create_member sample_schema ''Ann'' None (Some (StrVal ''undecided'')) None None None
        None None sample_world
     = create_member sample_schema ''Ann'' None (Some (IntVal 1)) None None None None None
        sample_world
   \<and> fst (create_member sample_schema ''Ann'' (Some (StrVal ''participant''))
          (Some (StrVal ''undecided'')) None None None None None sample_world)
       = Inr \<lparr>mo_id = ''m-new'', mo_name = ''Ann''\<rparr>
   \<and> members (store (snd (create_member sample_schema ''Ann'' (Some (StrVal ''participant''))
          (Some (StrVal ''undecided'')) None None None None None sample_world)))
       = members sample_db
         @ [\<lparr>m_id = ''m-new'', m_name = ''Ann'', m_membership_level_id = Some 2,
             m_interview_status_id = Some 1, m_gender = None, m_birthdate = None,
             m_phone = None, m_email = None, m_basic_info = None, m_created_at = 1000\<rparr>]
   \<and> members (store (snd (create_member sample_schema ''Ann'' (Some (IntVal 2))
          (Some (IntVal 1)) None None None None None sample_world)))
       = members sample_db
         @ [\<lparr>m_id = ''m-new'', m_name = ''Ann'', m_membership_level_id = Some 2,
             m_interview_status_id = Some 1, m_gender = None, m_birthdate = None,
             m_phone = None, m_email = None, m_basic_info = None, m_created_at = 1000\<rparr>]"
proof -
  have h: "healthy sample_world"
    by (simp add: healthy_def sample_world_def)
  have l: "distinct (map l_code (membership_levels (store sample_world)))
      \<and> \<lparr>l_id = 2, l_code = ''participant''\<rparr> \<in> set (membership_levels (store sample_world))"
    by (simp add: sample_world_def sample_db_def)
  have s: "distinct (map l_code (interview_statuses (store sample_world)))
      \<and> \<lparr>l_id = 1, l_code = ''undecided''\<rparr> \<in> set (interview_statuses (store sample_world))"
    by (simp add: sample_world_def sample_db_def)
  have dc: "denotes (membership_levels (store sample_world)) (Some (StrVal ''participant''))
        (Some 2)
      \<and> denotes (interview_statuses (store sample_world)) (Some (StrVal ''undecided''))
        (Some 1)"
    by (simp add: denotes_def sample_world_def sample_db_def)
  have di: "denotes (membership_levels (store sample_world)) (Some (IntVal 2)) (Some 2)
      \<and> denotes (interview_statuses (store sample_world)) (Some (IntVal 1)) (Some 1)"
    by (simp add: denotes_def sample_world_def sample_db_def)
  have row: "new_member_row sample_schema sample_db ''Ann'' (Some 2) (Some 1)
        None None None None None
      = \<lparr>m_id = ''m-new'', m_name = ''Ann'', m_membership_level_id = Some 2,
         m_interview_status_id = Some 1, m_gender = None, m_birthdate = None,
         m_phone = None, m_email = None, m_basic_info = None, m_created_at = 1000\<rparr>"
    by (simp add: new_member_row_def sample_schema_def)
  have st: "store sample_world = sample_db" "new_member_id sample_schema sample_db = ''m-new''"
    by (simp_all add: sample_world_def sample_schema_def)
  from create_member_code_or_id [OF h, where r = "\<lparr>l_id = 2, l_code = ''participant''\<rparr>"
      and sch = sample_schema and nm = "''Ann''" and sv = None and g = None and b = None
      and p = None and em = None and bi = None, THEN conjunct1] l
  have 1: "create_member sample_schema ''Ann'' (Some (StrVal ''participant'')) None None None
      None None None sample_world
     = create_member sample_schema ''Ann'' (Some (IntVal 2)) None None None None None None
        sample_world" by simp
  from create_member_code_or_id [OF h, where r = "\<lparr>l_id = 1, l_code = ''undecided''\<rparr>"
      and sch = sample_schema and nm = "''Ann''" and lv = None and g = None and b = None
      and p = None and em = None and bi = None, THEN conjunct2, THEN conjunct1] s
  have 2: "create_member sample_schema ''Ann'' None (Some (StrVal ''undecided'')) None None
      None None None sample_world
     = create_member sample_schema ''Ann'' None (Some (IntVal 1)) None None None None None
        sample_world" by simp
  from create_member_code_or_id [OF h, where sch = sample_schema and nm = "''Ann''"
      and lv = "Some (StrVal ''participant'')" and sv = "Some (StrVal ''undecided'')"
      and lid = "Some 2" and sid = "Some 1" and g = None and b = None
      and p = None and em = None and bi = None, THEN conjunct2, THEN conjunct2] l s dc
  have 3: "fst (create_member sample_schema ''Ann'' (Some (StrVal ''participant''))
          (Some (StrVal ''undecided'')) None None None None None sample_world)
       = Inr \<lparr>mo_id = ''m-new'', mo_name = ''Ann''\<rparr>
    \<and> members (store (snd (create_member sample_schema ''Ann'' (Some (StrVal ''participant''))
          (Some (StrVal ''undecided'')) None None None None None sample_world)))
       = members sample_db
         @ [\<lparr>m_id = ''m-new'', m_name = ''Ann'', m_membership_level_id = Some 2,
             m_interview_status_id = Some 1, m_gender = None, m_birthdate = None,
             m_phone = None, m_email = None, m_basic_info = None, m_created_at = 1000\<rparr>]"
    by (simp add: row st)
  from create_member_code_or_id [OF h, where sch = sample_schema and nm = "''Ann''"
      and lv = "Some (IntVal 2)" and sv = "Some (IntVal 1)"
      and lid = "Some 2" and sid = "Some 1" and g = None and b = None
      and p = None and em = None and bi = None, THEN conjunct2, THEN conjunct2] l s di
  have 4: "members (store (snd (create_member sample_schema ''Ann'' (Some (IntVal 2))
          (Some (IntVal 1)) None None None None None sample_world)))
       = members sample_db
         @ [\<lparr>m_id = ''m-new'', m_name = ''Ann'', m_membership_level_id = Some 2,
             m_interview_status_id = Some 1, m_gender = None, m_birthdate = None,
             m_phone = None, m_email = None, m_basic_info = None, m_created_at = 1000\<rparr>]"
    by (simp add: row st)
  from h 1 2 3 4 show ?thesis by simp
qed

subsection \<open>Deleting a member\<close>

lemma delete_member_healthy:
  assumes "healthy w"
  shows "delete_member mid w =
    (Inr (length (filter (\<lambda>m. m_id m = mid) (members (store w)))),
     released ((entered w)\<lparr>store := (store w)\<lparr>
         offerings := filter (\<lambda>x. o_member_id x \<noteq> mid) (offerings (store w)),
         members := filter (\<lambda>m. m_id m \<noteq> mid) (members (store w))\<rparr>\<rparr>))"
  using assms
  by (simp add: delete_member_eq healthy_def io_bind_def io_return_def
      execute_ok delete_offerings_def delete_member_row_def commit_def view_def released_def
      entered_def)

lemma distinct_count_le_1:
  "distinct (map f xs) \<Longrightarrow> length (filter (\<lambda>x. f x = k) xs) = (if k \<in> set (map f xs) then 1 else 0)"
  by (induction xs) (auto simp: filter_empty_conv image_iff)

lemma delete_member_atomic:
  "store (snd (delete_member mid w)) = store w
   \<or> store (snd (delete_member mid w)) = (store w)\<lparr>
         offerings := filter (\<lambda>x. o_member_id x \<noteq> mid) (offerings (store w)),
         members := filter (\<lambda>m. m_id m \<noteq> mid) (members (store w))\<rparr>"
  by (auto simp: delete_member_eq io_bind_def io_return_def
      execute_def delete_offerings_def delete_member_row_def commit_def view_def released_def
      entered_def Let_def split: option.splits nat.splits)


lemma healthy_after_delete: "healthy w \<Longrightarrow> healthy (snd (delete_member mid w))"
  by (simp add: delete_member_healthy) (simp add: healthy_def entered_def released_def)

text \<open>
  C2. In a run that can work with the store, \<^verbatim>\<open>delete_member\<close> of \<^verbatim>\<open>backend/db.py\<close>
  commits the result of the two statements in their order, the offerings of the member
  first and the member row on the data without them, and returns the row count of the
  second; afterwards no offering and no member with that id is left. With the ids of the
  members unique (the primary key) the count is 1 when the member existed and 0 when it
  did not, and a second call returns 0. In every run, whatever fails, the committed data
  afterwards are either the data before the call or the data with both deletions: the
  two are one transaction.
\<close>

theorem delete_member_count:
  "(healthy w \<longrightarrow>
      (\<exists>n d1 k. delete_offerings mid (store w) = Inr (n, d1)
         \<and> delete_member_row mid d1 = Inr (k, store (snd (delete_member mid w)))
         \<and> fst (delete_member mid w) = Inr k)
      \<and> (\<forall>x\<in>set (offerings (store (snd (delete_member mid w)))). o_member_id x \<noteq> mid)
      \<and> (\<forall>m\<in>set (members (store (snd (delete_member mid w)))). m_id m \<noteq> mid)
      \<and> (distinct (map m_id (members (store w))) \<longrightarrow>
           fst (delete_member mid w)
             = Inr (if mid \<in> set (map m_id (members (store w))) then 1 else 0))
      \<and> fst (delete_member mid (snd (delete_member mid w))) = Inr 0)
   \<and> (store (snd (delete_member mid w)) = store w
      \<or> store (snd (delete_member mid w)) = (store w)\<lparr>
           offerings := filter (\<lambda>x. o_member_id x \<noteq> mid) (offerings (store w)),
           members := filter (\<lambda>m. m_id m \<noteq> mid) (members (store w))\<rparr>)"
proof (intro conjI impI)
  assume h: "healthy w"
  let ?w' = "snd (delete_member mid w)"
  have st: "store ?w' = (store w)\<lparr>
      offerings := filter (\<lambda>x. o_member_id x \<noteq> mid) (offerings (store w)),
      members := filter (\<lambda>m. m_id m \<noteq> mid) (members (store w))\<rparr>"
    by (simp add: delete_member_healthy [OF h])
  have res: "fst (delete_member mid w)
      = Inr (length (filter (\<lambda>m. m_id m = mid) (members (store w))))"
    by (simp add: delete_member_healthy [OF h])
  show "\<exists>n d1 k. delete_offerings mid (store w) = Inr (n, d1)
         \<and> delete_member_row mid d1 = Inr (k, store ?w')
         \<and> fst (delete_member mid w) = Inr k"
    by (simp add: st res delete_offerings_def delete_member_row_def)
  show "\<forall>x\<in>set (offerings (store ?w')). o_member_id x \<noteq> mid"
    by (simp add: st)
  show "\<forall>m\<in>set (members (store ?w')). m_id m \<noteq> mid"
    by (simp add: st)
  have "filter (\<lambda>m. m_id m = mid) (members (store ?w')) = []"
    by (simp add: st filter_empty_conv)
  then show "fst (delete_member mid ?w') = Inr 0"
    by (simp add: delete_member_healthy [OF healthy_after_delete [OF h]])
  assume "distinct (map m_id (members (store w)))"
  then show "fst (delete_member mid w)
      = Inr (if mid \<in> set (map m_id (members (store w))) then 1 else 0)"
    by (simp only: res distinct_count_le_1)
next
  show "store (snd (delete_member mid w)) = store w
      \<or> store (snd (delete_member mid w)) = (store w)\<lparr>
           offerings := filter (\<lambda>x. o_member_id x \<noteq> mid) (offerings (store w)),
           members := filter (\<lambda>m. m_id m \<noteq> mid) (members (store w))\<rparr>"
    by (rule delete_member_atomic)
qed

theorem delete_member_count_witness:
  "healthy sample_world \<and> distinct (map m_id (members (store sample_world)))
   \<and> fst (delete_member ''m1'' sample_world) = Inr 1
   \<and> fst (delete_member ''m1'' (snd (delete_member ''m1'' sample_world))) = Inr 0
   \<and> ''m1'' \<notin> set (map o_member_id
         (offerings (store (snd (delete_member ''m1'' sample_world)))))"
proof -
  have h: "healthy sample_world"
    by (simp add: healthy_def sample_world_def)
  have d: "distinct (map m_id (members (store sample_world)))"
    by (simp add: sample_world_def sample_db_def sample_member_def)
  have m: "''m1'' \<in> set (map m_id (members (store sample_world)))"
    by (simp add: sample_world_def sample_db_def sample_member_def)
  from delete_member_count [of sample_world "''m1''"] h d m
  have "fst (delete_member ''m1'' sample_world) = Inr 1
   \<and> fst (delete_member ''m1'' (snd (delete_member ''m1'' sample_world))) = Inr 0
   \<and> (\<forall>x\<in>set (offerings (store (snd (delete_member ''m1'' sample_world)))).
         o_member_id x \<noteq> ''m1'')"
    by simp
  with h d show ?thesis by auto
qed

subsection \<open>The offerings of a member\<close>

lemma select_offerings_sorted:
  "sorted_wrt (\<lambda>a b. o_donated_at b \<le> o_donated_at a)
     (sort_key (\<lambda>x. - o_donated_at x) rows)"
proof -
  have "sorted (map (\<lambda>x. - o_donated_at x) (sort_key (\<lambda>x. - o_donated_at x) rows))"
    by (rule sorted_sort_key)
  then show ?thesis by (simp add: sorted_wrt_map)
qed

lemma get_offerings_for_member_healthy:
  assumes "healthy w"
  shows "fst (get_offerings_for_member ops mid w) =
    Inr (let lg = map (offering_row_to_dict ops)
                    (sort_key (\<lambda>x. - o_donated_at x)
                       (filter (\<lambda>x. o_member_id x = mid) (offerings (store w))))
         in \<lparr>ol_member_id = mid,
             ol_total = py_round2 ops (py_sum ops (map (\<lambda>x. or_0 ops (oo_amount x)) lg)),
             ol_log = lg\<rparr>)"
  using assms
  by (simp add: get_offerings_for_member_def healthy_def io_bind_def get_connection_def connect_def
      cursor_def try_finally_def execute_ok select_offerings_def io_return_def
      cursor_close_def conn_close_def view_def Let_def)

lemma get_offerings_for_member_members:
  "fst (get_offerings_for_member ops mid (w\<lparr>store := (store w)\<lparr>members := ms\<rparr>\<rparr>))
   = fst (get_offerings_for_member ops mid w)"
  by (simp add: get_offerings_for_member_def io_bind_def get_connection_def connect_def
      cursor_def try_finally_def execute_def select_offerings_def io_return_def
      cursor_close_def conn_close_def view_def Let_def split: option.splits nat.splits)

text \<open>
  C4. In a run that can work with the store, \<^verbatim>\<open>get_offerings_for_member\<close> returns a log
  that holds the offerings of that member and no others, each once, with the latest
  \<^verbatim>\<open>donated_at\<close> first; when the store has no offering of that member the log is empty
  and the total is the integer 0. The result does not depend on the members table, in
  any run, so a member without offerings and an id that no member has give the same
  answer.
\<close>

theorem get_offerings_for_member_log:
  "(healthy w \<longrightarrow>
      (\<exists>r rows. fst (get_offerings_for_member ops mid w) = Inr r
         \<and> ol_member_id r = mid
         \<and> ol_log r = map (offering_row_to_dict ops) rows
         \<and> mset rows = mset (filter (\<lambda>x. o_member_id x = mid) (offerings (store w)))
         \<and> sorted_wrt (\<lambda>a b. oo_donated_at b \<le> oo_donated_at a) (ol_log r)
         \<and> ((\<forall>x\<in>set (offerings (store w)). o_member_id x \<noteq> mid) \<longrightarrow>
               ol_log r = [] \<and> ol_total r = PyInt 0)))
   \<and> fst (get_offerings_for_member ops mid (w\<lparr>store := (store w)\<lparr>members := ms\<rparr>\<rparr>))
       = fst (get_offerings_for_member ops mid w)"
proof (intro conjI impI)
  assume h: "healthy w"
  let ?sel = "filter (\<lambda>x. o_member_id x = mid) (offerings (store w))"
  let ?rows = "sort_key (\<lambda>x. - o_donated_at x) ?sel"
  let ?lg = "map (offering_row_to_dict ops) ?rows"
  let ?r = "\<lparr>ol_member_id = mid,
             ol_total = py_round2 ops (py_sum ops (map (\<lambda>x. or_0 ops (oo_amount x)) ?lg)),
             ol_log = ?lg\<rparr>"
  have res: "fst (get_offerings_for_member ops mid w) = Inr ?r"
    by (simp add: get_offerings_for_member_healthy [OF h] Let_def)
  have srt: "sorted_wrt (\<lambda>a b. oo_donated_at b \<le> oo_donated_at a) ?lg"
    using select_offerings_sorted [of ?sel]
    by (simp add: sorted_wrt_map offering_row_to_dict_def)
  have empty: "ol_log ?r = [] \<and> ol_total ?r = PyInt 0"
    if "\<forall>x\<in>set (offerings (store w)). o_member_id x \<noteq> mid"
  proof -
    from that have "?sel = []" by (simp add: filter_empty_conv)
    then show ?thesis by (simp add: py_sum_def py_round2_def)
  qed
  have "fst (get_offerings_for_member ops mid w) = Inr ?r
      \<and> ol_member_id ?r = mid
      \<and> ol_log ?r = map (offering_row_to_dict ops) ?rows
      \<and> mset ?rows = mset ?sel
      \<and> sorted_wrt (\<lambda>a b. oo_donated_at b \<le> oo_donated_at a) (ol_log ?r)
      \<and> ((\<forall>x\<in>set (offerings (store w)). o_member_id x \<noteq> mid) \<longrightarrow>
            ol_log ?r = [] \<and> ol_total ?r = PyInt 0)"
    using res srt empty by simp
  then show "\<exists>r rows. fst (get_offerings_for_member ops mid w) = Inr r
         \<and> ol_member_id r = mid
         \<and> ol_log r = map (offering_row_to_dict ops) rows
         \<and> mset rows = mset (filter (\<lambda>x. o_member_id x = mid) (offerings (store w)))
         \<and> sorted_wrt (\<lambda>a b. oo_donated_at b \<le> oo_donated_at a) (ol_log r)
         \<and> ((\<forall>x\<in>set (offerings (store w)). o_member_id x \<noteq> mid) \<longrightarrow>
               ol_log r = [] \<and> ol_total r = PyInt 0)"
    by blast
next
  show "fst (get_offerings_for_member ops mid (w\<lparr>store := (store w)\<lparr>members := ms\<rparr>\<rparr>))
       = fst (get_offerings_for_member ops mid w)"
    by (rule get_offerings_for_member_members)
qed

theorem get_offerings_for_member_log_witness:
  "healthy sample_world
   \<and> map oo_id (ol_log (projr (fst (get_offerings_for_member sample_ops ''m1'' sample_world))))
       = [2, 1]
   \<and> ''m2'' \<notin> set (map o_member_id (offerings (store sample_world)))
   \<and> ''nobody'' \<notin> set (map o_member_id (offerings (store sample_world)))
   \<and> (\<exists>r. fst (get_offerings_for_member sample_ops ''m2'' sample_world) = Inr r
         \<and> ol_log r = [] \<and> ol_total r = PyInt 0)
   \<and> (\<exists>r. fst (get_offerings_for_member sample_ops ''nobody'' sample_world) = Inr r
         \<and> ol_log r = [] \<and> ol_total r = PyInt 0)"
proof -
  have h: "healthy sample_world"
    by (simp add: healthy_def sample_world_def)
  have a: "\<forall>x\<in>set (offerings (store sample_world)). o_member_id x \<noteq> ''m2''"
    by (simp add: sample_world_def sample_db_def sample_offering_def)
  have b: "\<forall>x\<in>set (offerings (store sample_world)). o_member_id x \<noteq> ''nobody''"
    by (simp add: sample_world_def sample_db_def sample_offering_def)
  have v: "map oo_id (ol_log (projr (fst (get_offerings_for_member sample_ops ''m1''
      sample_world)))) = [2, 1]"
    by (simp only: get_offerings_for_member_healthy [OF h])
      (simp add: Let_def sample_world_def sample_db_def sample_offering_def
        offering_row_to_dict_def)
  from get_offerings_for_member_log [of sample_world sample_ops "''m2''"] h a
  have 1: "\<exists>r. fst (get_offerings_for_member sample_ops ''m2'' sample_world) = Inr r
         \<and> ol_log r = [] \<and> ol_total r = PyInt 0" by blast
  from get_offerings_for_member_log [of sample_world sample_ops "''nobody''"] h b
  have 2: "\<exists>r. fst (get_offerings_for_member sample_ops ''nobody'' sample_world) = Inr r
         \<and> ol_log r = [] \<and> ol_total r = PyInt 0" by blast
  from a have a': "''m2'' \<notin> set (map o_member_id (offerings (store sample_world)))"
    by auto
  from b have b': "''nobody'' \<notin> set (map o_member_id (offerings (store sample_world)))"
    by auto
  from h a' b' v 1 2 show ?thesis by simp
qed

subsection \<open>Deleting a member in \<^verbatim>\<open>app.py\<close>\<close>

lemma app_delete_member_no_connection:
  "database_url w = None \<Longrightarrow> app_delete_member mid w = (Inl MissingDsn, w)"
  "database_url w \<noteq> None \<Longrightarrow> \<not> store_reachable w \<Longrightarrow>
   app_delete_member mid w = (Inl StoreFailure, w)"
  by (auto simp: app_delete_member_def app_get_connection_def connect_def io_bind_def)

lemma app_delete_member_start:
  assumes "database_url w \<noteq> None" "store_reachable w"
  shows "app_delete_member mid w =
    try_finally
       (try_except
          (io_bind (execute (delete_offerings mid)) (\<lambda>_.
           io_bind (execute (delete_member_row mid)) (\<lambda>_.
           commit)))
          (\<lambda>e. rollback))
       (io_bind cursor_close (\<lambda>_. conn_close)) (entered w)"
  using assms
  by (auto simp: app_delete_member_def app_get_connection_def connect_def io_bind_def
      cursor_def entered_def)

lemma app_delete_member_no_failure:
  assumes "database_url w \<noteq> None" "store_reachable w" "\<not> (\<exists>n<3. fail_at w = Some n)"
  shows "fst (app_delete_member mid w) = Inr ()"
proof -
  have "fail_at w = None \<or> (\<exists>n. fail_at w = Some (Suc (Suc (Suc n))))"
  proof (cases "fail_at w")
    case None
    then show ?thesis by simp
  next
    case (Some k)
    with assms(3) have "3 \<le> k" by auto
    then obtain n where "k = 3 + n" by (auto simp: le_iff_add)
    with Some show ?thesis by (simp add: numeral_3_eq_3)
  qed
  then consider "fail_at w = None" | n where "fail_at w = Some (Suc (Suc (Suc n)))"
    by (elim disjE exE)
  then show ?thesis
    by cases
      (simp_all add: app_delete_member_start [OF assms(1,2)] try_finally_def try_except_def
        io_bind_def execute_def commit_def delete_offerings_def delete_member_row_def
        cursor_close_def conn_close_def entered_def view_def Let_def)
qed

lemma app_delete_member_failure:
  assumes "database_url w \<noteq> None" "store_reachable w" "fail_at w = Some n" "n < 3"
  shows "fst (app_delete_member mid w) = (if fail_loses_conn w then Inl StoreFailure else Inr ())"
    and "\<not> fail_loses_conn w \<Longrightarrow> store (snd (app_delete_member mid w)) = store w"
    and "\<not> fail_loses_conn w \<Longrightarrow> txn (snd (app_delete_member mid w)) = None"
proof -
  from assms(4) consider "n = 0" | "n = Suc 0" | "n = Suc (Suc 0)"
    by (auto simp: numeral_3_eq_3 less_Suc_eq)
  then have "fst (app_delete_member mid w) = (if fail_loses_conn w then Inl StoreFailure else Inr ())
    \<and> (\<not> fail_loses_conn w \<longrightarrow> store (snd (app_delete_member mid w)) = store w
          \<and> txn (snd (app_delete_member mid w)) = None)"
    using assms(3)
    by cases
      (simp_all add: app_delete_member_start [OF assms(1,2)] try_finally_def try_except_def
        io_bind_def execute_def commit_def delete_offerings_def delete_member_row_def
        rollback_def cursor_close_def conn_close_def entered_def view_def Let_def)
  then show "fst (app_delete_member mid w)
      = (if fail_loses_conn w then Inl StoreFailure else Inr ())"
    and "\<not> fail_loses_conn w \<Longrightarrow> store (snd (app_delete_member mid w)) = store w"
    and "\<not> fail_loses_conn w \<Longrightarrow> txn (snd (app_delete_member mid w)) = None"
    by simp_all
qed

text \<open>
  C10, as stated, fails: the answer is not \<^verbatim>\<open>{"status": "deleted"}\<close> in every call. When
  the second statement fails because the connection is lost, the rollback in the
  \<^verbatim>\<open>except\<close> branch raises as well, and when there is no URL the connection, which is
  opened before the \<^verbatim>\<open>try\<close>, cannot be opened; both exceptions leave
  \<^verbatim>\<open>delete_member\<close> and the handler.
\<close>

theorem api_delete_member_not_always_deleted:
  "fst (api_delete_member ''m1'' (sample_world\<lparr>fail_at := Some 1, fail_loses_conn := True\<rparr>))
     = Unhandled StoreFailure
   \<and> fst (api_delete_member ''m1'' (sample_world\<lparr>database_url := None\<rparr>))
     = Unhandled MissingDsn"
proof -
  let ?w = "sample_world\<lparr>fail_at := Some 1, fail_loses_conn := True\<rparr>"
  have "database_url ?w \<noteq> None" "store_reachable ?w" "fail_at ?w = Some 1" "(1::nat) < 3"
    "fail_loses_conn ?w"
    by (simp_all add: sample_world_def)
  then have "fst (app_delete_member ''m1'' ?w) = Inl StoreFailure"
    using app_delete_member_failure(1) [of ?w 1 "''m1''"] by simp
  moreover have "app_delete_member ''m1'' (sample_world\<lparr>database_url := None\<rparr>)
      = (Inl MissingDsn, sample_world\<lparr>database_url := None\<rparr>)"
    by (simp add: app_delete_member_no_connection(1))
  ultimately show ?thesis
    by (cases "app_delete_member ''m1'' ?w") (simp add: api_delete_member_def)
qed

text \<open>
  C10, amended. \<^verbatim>\<open>delete_member\<close> of \<^verbatim>\<open>app.py\<close> catches every exception of its two
  statements and of the commit and rolls back; when the connection could be opened and
  the rollback does not fail, it returns \<^verbatim>\<open>None\<close>, and \<^verbatim>\<open>api_delete_member\<close> answers
  \<^verbatim>\<open>{"status": "deleted"}\<close>, for every id, whether a member has it or not, and also
  when a statement or the commit failed: then the committed data are what they were and
  the answer is the same although nothing was deleted. The handler answers otherwise in
  exactly three cases, in which the exception reaches the framework: there is no URL,
  the store cannot be reached, or the failure of a statement or of the commit is the loss
  of the connection, so that the rollback raises too.
\<close>

theorem api_delete_member_response:
  "fst (api_delete_member mid w) =
     (if database_url w = None then Unhandled MissingDsn
      else if \<not> store_reachable w then Unhandled StoreFailure
      else if fail_loses_conn w \<and> (\<exists>n<3. fail_at w = Some n) then Unhandled StoreFailure
      else Response 200 (Status ''deleted''))
   \<and> (database_url w \<noteq> None \<and> store_reachable w \<and> \<not> fail_loses_conn w
        \<and> (\<exists>n<3. fail_at w = Some n) \<longrightarrow>
        store (snd (app_delete_member mid w)) = store w
        \<and> txn (snd (app_delete_member mid w)) = None)"
proof (intro conjI impI)
  have r: "fst (app_delete_member mid w) =
     (if database_url w = None then Inl MissingDsn
      else if \<not> store_reachable w then Inl StoreFailure
      else if fail_loses_conn w \<and> (\<exists>n<3. fail_at w = Some n) then Inl StoreFailure
      else Inr ())"
  proof (cases "database_url w = None")
    case True
    then show ?thesis by (simp add: app_delete_member_no_connection(1))
  next
    case url: False
    show ?thesis
    proof (cases "store_reachable w")
      case False
      with url show ?thesis by (simp add: app_delete_member_no_connection(2))
    next
      case True
      show ?thesis
      proof (cases "\<exists>n<3. fail_at w = Some n")
        case False
        with url True app_delete_member_no_failure [OF url True False, of mid]
        show ?thesis by simp
      next
        case f: True
        then obtain n where "n < 3" "fail_at w = Some n" by blast
        with url True f app_delete_member_failure(1) [OF url True, of n mid]
        show ?thesis by simp
      qed
    qed
  qed
  show "fst (api_delete_member mid w) =
     (if database_url w = None then Unhandled MissingDsn
      else if \<not> store_reachable w then Unhandled StoreFailure
      else if fail_loses_conn w \<and> (\<exists>n<3. fail_at w = Some n) then Unhandled StoreFailure
      else Response 200 (Status ''deleted''))"
    using r by (cases "app_delete_member mid w") (auto simp: api_delete_member_def)
next
  assume a: "database_url w \<noteq> None \<and> store_reachable w \<and> \<not> fail_loses_conn w
        \<and> (\<exists>n<3. fail_at w = Some n)"
  then obtain n where n: "n < 3" "fail_at w = Some n" by blast
  from a n show "store (snd (app_delete_member mid w)) = store w"
    using app_delete_member_failure(2) [of w n mid] by simp
  from a n show "txn (snd (app_delete_member mid w)) = None"
    using app_delete_member_failure(3) [of w n mid] by simp
qed

theorem api_delete_member_response_witness:
  "fst (api_delete_member ''m1'' (sample_world\<lparr>fail_at := Some 1\<rparr>))
       = Response 200 (Status ''deleted'')
   \<and> store (snd (app_delete_member ''m1'' (sample_world\<lparr>fail_at := Some 1\<rparr>))) = sample_db
   \<and> fst (api_delete_member ''nobody'' sample_world) = Response 200 (Status ''deleted'')
   \<and> fst (api_delete_member ''m1'' sample_world) = Response 200 (Status ''deleted'')"
proof -
  let ?w = "sample_world\<lparr>fail_at := Some 1\<rparr>"
  have h: "database_url ?w \<noteq> None \<and> store_reachable ?w \<and> \<not> fail_loses_conn ?w
      \<and> (\<exists>n<3. fail_at ?w = Some n)"
    by (simp add: sample_world_def)
  have g: "database_url sample_world \<noteq> None" "store_reachable sample_world"
    "fail_at sample_world = None"
    by (simp_all add: sample_world_def)
  from api_delete_member_response [of "''m1''" ?w] h
  have 1: "fst (api_delete_member ''m1'' ?w) = Response 200 (Status ''deleted'')
     \<and> store (snd (app_delete_member ''m1'' ?w)) = sample_db"
    by (simp add: sample_world_def)
  from api_delete_member_response [of "''nobody''" sample_world] g
  have 2: "fst (api_delete_member ''nobody'' sample_world) = Response 200 (Status ''deleted'')"
    by simp
  from api_delete_member_response [of "''m1''" sample_world] g
  have 3: "fst (api_delete_member ''m1'' sample_world) = Response 200 (Status ''deleted'')"
    by simp
  from 1 2 3 show ?thesis by blast
qed

subsection \<open>Release of the connection\<close>

lemma in_transaction_releases:
  assumes "preserves open_conns body"
  shows "open_conns (snd (in_transaction body w)) = open_conns w"
  using preservesD [OF assms, of "entered w"]
  by (simp add: in_transaction_snd) (simp add: entered_def)

lemma in_transaction_no_txn:
  "database_url w \<noteq> None \<Longrightarrow> database_url w \<noteq> Some [] \<Longrightarrow> store_reachable w \<Longrightarrow>
   txn (snd (in_transaction body w)) = None"
  by (auto simp: in_transaction_snd)

lemma with_finally_eq:
  "io_bind get_connection (\<lambda>_. io_bind cursor (\<lambda>_.
     try_finally body (io_bind cursor_close (\<lambda>_. conn_close)))) w =
     (if database_url w = None \<or> database_url w = Some [] then (Inl DatabaseUrlNotSet, w)
      else if \<not> store_reachable w then (Inl StoreFailure, w)
      else (fst (body (entered w)), released (snd (body (entered w)))))"
  by (auto simp: io_bind_def get_connection_def connect_def cursor_def try_finally_def
      cursor_close_def conn_close_def entered_def released_def split: prod.splits sum.splits)

text \<open>
  The functions with \<^verbatim>\<open>try ... finally\<close> give the connection back in every run: after
  the call as many connections are open as before it.
\<close>

lemma guarded_functions_release:
  "open_conns (snd (create_member sch nm lv sv g b p em bi w)) = open_conns w"
  "open_conns (snd (delete_member mid w)) = open_conns w"
  "open_conns (snd (add_offering ops sch mid amt nt dt w)) = open_conns w"
  "open_conns (snd (get_offerings_for_member ops mid w)) = open_conns w"
proof -
  show "open_conns (snd (create_member sch nm lv sv g b p em bi w)) = open_conns w"
    unfolding create_member_def
    by (rule in_transaction_releases)
      (auto simp: create_member_body_def
        intro!: preserves_bind preserves_resolve preserves_execute preserves_commit
          preserves_return)
  show "open_conns (snd (delete_member mid w)) = open_conns w"
    unfolding delete_member_def
    by (rule in_transaction_releases)
      (auto intro!: preserves_bind preserves_execute preserves_commit preserves_return)
  show "open_conns (snd (add_offering ops sch mid amt nt dt w)) = open_conns w"
    unfolding add_offering_def
    by (rule in_transaction_releases)
      (auto intro!: preserves_bind preserves_execute preserves_commit preserves_return)
  have "preserves open_conns
      (io_bind (execute (select_offerings mid)) (\<lambda>rows.
          let lg = map (offering_row_to_dict ops) rows;
              tot = py_round2 ops (py_sum ops (map (\<lambda>x. or_0 ops (oo_amount x)) lg))
          in io_return \<lparr>ol_member_id = mid, ol_total = tot, ol_log = lg\<rparr>))"
    by (auto simp: Let_def intro!: preserves_bind preserves_execute preserves_return)
  from preservesD [OF this, of "entered w"]
  show "open_conns (snd (get_offerings_for_member ops mid w)) = open_conns w"
    unfolding get_offerings_for_member_def with_finally_eq
    by (simp add: entered_def)
qed

text \<open>
  C9. The three reading functions without a \<^verbatim>\<open>try\<close> do not: when the statement fails,
  the exception leaves \<^verbatim>\<open>get_all_members\<close>, \<^verbatim>\<open>search_members_by_name\<close> and
  \<^verbatim>\<open>get_member_id_by_name\<close> with the connection and the cursor still open and the
  transaction neither rolled back nor closed.
\<close>

theorem unguarded_functions_leak:
  "fst (get_all_members (sample_world\<lparr>fail_at := Some 0\<rparr>)) = Inl StoreFailure
   \<and> open_conns (snd (get_all_members (sample_world\<lparr>fail_at := Some 0\<rparr>))) = 1
   \<and> txn (snd (get_all_members (sample_world\<lparr>fail_at := Some 0\<rparr>))) \<noteq> None
   \<and> fst (get_member_id_by_name ''Mei'' (sample_world\<lparr>fail_at := Some 0\<rparr>)) = Inl StoreFailure
   \<and> open_conns (snd (get_member_id_by_name ''Mei'' (sample_world\<lparr>fail_at := Some 0\<rparr>))) = 1
   \<and> txn (snd (get_member_id_by_name ''Mei'' (sample_world\<lparr>fail_at := Some 0\<rparr>))) \<noteq> None
   \<and> fst (search_members_by_name ''mei'' (sample_world\<lparr>fail_at := Some 0\<rparr>)) = Inl StoreFailure
   \<and> open_conns (snd (search_members_by_name ''mei'' (sample_world\<lparr>fail_at := Some 0\<rparr>))) = 1
   \<and> txn (snd (search_members_by_name ''mei'' (sample_world\<lparr>fail_at := Some 0\<rparr>))) \<noteq> None"
  by (simp add: get_all_members_def get_member_id_by_name_def search_members_by_name_def
      io_bind_def get_connection_def connect_def cursor_def execute_def sample_world_def)

subsection \<open>Failures at the HTTP layer\<close>

text \<open>
  C7, as stated, fails: an offering for an id that no member has is rejected by the store
  with \<open>ConstraintViolation\<close>, and \<^verbatim>\<open>api_add_offering\<close> answers 400, not 500.
\<close>

theorem api_add_offering_constraint_violation_400:
  "fst (add_offering sample_ops sample_schema ''nobody'' (AmountFloat 1000) [] None
          sample_world) = Inl ConstraintViolation
   \<and> fst (api_add_offering sample_ops sample_schema
            \<lparr>oc_member_id = ''nobody'', oc_amount = 1000, oc_note = None,
             oc_donated_at = None\<rparr> sample_world)
       = HTTPException 400 (Generic ''Failed to add offering'')"
  by (simp add: api_add_offering_def add_offering_eq io_bind_def
      execute_ok insert_offering_def sample_world_def sample_db_def sample_member_def
      entered_def view_def)

text \<open>
  C7, amended. Whatever the data-access call raises, the handlers with a \<^verbatim>\<open>try\<close> answer
  with a detail fixed in the source, never with the text of the exception.
  \<^verbatim>\<open>api_add_member\<close> answers 500 for every exception that is not the \<^verbatim>\<open>ValueError\<close> of an
  unknown code, and \<^verbatim>\<open>api_delete_member_ep\<close> answers 500 for every exception;
  \<^verbatim>\<open>api_add_offering\<close> and \<^verbatim>\<open>api_member_offerings\<close> answer 400 for every exception.
\<close>

theorem api_failure_responses:
  "(fst (create_member sch (mc_name member) (mc_membership_level member)
           (mc_interview_status member) (mc_gender member)
           (map_option date_of (mc_birthdate member)) (mc_phone member) (mc_email member)
           (mc_basic_info member) w) = Inl e \<and> \<not> is_value_error e \<longrightarrow>
      fst (api_add_member sch member w)
        = HTTPException 500 (Generic ''Failed to create member''))
   \<and> (fst (delete_member mid w) = Inl e \<longrightarrow>
      fst (api_delete_member_ep mid w)
        = HTTPException 500 (Generic ''Failed to delete member''))
   \<and> (fst (add_offering ops sch (oc_member_id body) (AmountFloat (oc_amount body))
           (case oc_note body of None \<Rightarrow> [] | Some t \<Rightarrow> t) (oc_donated_at body) w) = Inl e \<longrightarrow>
      fst (api_add_offering ops sch body w)
        = HTTPException 400 (Generic ''Failed to add offering''))
   \<and> (fst (get_offerings_for_member ops mid w) = Inl e \<longrightarrow>
      fst (api_member_offerings ops mid w)
        = HTTPException 400 (Generic ''Failed to fetch offerings''))"
proof (intro conjI impI)
  assume "fst (create_member sch (mc_name member) (mc_membership_level member)
           (mc_interview_status member) (mc_gender member)
           (map_option date_of (mc_birthdate member)) (mc_phone member) (mc_email member)
           (mc_basic_info member) w) = Inl e \<and> \<not> is_value_error e"
  then show "fst (api_add_member sch member w)
        = HTTPException 500 (Generic ''Failed to create member'')"
    by (auto simp: api_add_member_def split: prod.splits sum.splits)
next
  assume "fst (delete_member mid w) = Inl e"
  then show "fst (api_delete_member_ep mid w)
        = HTTPException 500 (Generic ''Failed to delete member'')"
    by (auto simp: api_delete_member_ep_def split: prod.splits sum.splits)
next
  assume "fst (add_offering ops sch (oc_member_id body) (AmountFloat (oc_amount body))
           (case oc_note body of None \<Rightarrow> [] | Some t \<Rightarrow> t) (oc_donated_at body) w) = Inl e"
  then show "fst (api_add_offering ops sch body w)
        = HTTPException 400 (Generic ''Failed to add offering'')"
    by (auto simp: api_add_offering_def split: prod.splits sum.splits)
next
  assume "fst (get_offerings_for_member ops mid w) = Inl e"
  then show "fst (api_member_offerings ops mid w)
        = HTTPException 400 (Generic ''Failed to fetch offerings'')"
    by (auto simp: api_member_offerings_def split: prod.splits sum.splits)
qed

theorem api_failure_responses_witness:
  "fst (create_member sample_schema ''Ann'' (Some (IntVal 99)) None None None None None None
          sample_world) = Inl ConstraintViolation
   \<and> \<not> is_value_error ConstraintViolation
   \<and> fst (api_add_member sample_schema
            \<lparr>mc_name = ''Ann'', mc_membership_level = Some (IntVal 99),
             mc_interview_status = None, mc_gender = None, mc_birthdate = None,
             mc_phone = None, mc_email = None, mc_basic_info = None\<rparr> sample_world)
       = HTTPException 500 (Generic ''Failed to create member'')
   \<and> fst (delete_member ''m1'' (sample_world\<lparr>fail_at := Some 0\<rparr>)) = Inl StoreFailure
   \<and> fst (api_delete_member_ep ''m1'' (sample_world\<lparr>fail_at := Some 0\<rparr>))
       = HTTPException 500 (Generic ''Failed to delete member'')
   \<and> fst (get_offerings_for_member sample_ops ''m1'' (sample_world\<lparr>fail_at := Some 0\<rparr>))
       = Inl StoreFailure
   \<and> fst (api_member_offerings sample_ops ''m1'' (sample_world\<lparr>fail_at := Some 0\<rparr>))
       = HTTPException 400 (Generic ''Failed to fetch offerings'')
   \<and> fst (add_offering sample_ops sample_schema ''m1'' (AmountFloat 1000) [] None
          (sample_world\<lparr>fail_at := Some 1\<rparr>)) = Inl StoreFailure
   \<and> fst (api_add_offering sample_ops sample_schema
            \<lparr>oc_member_id = ''m1'', oc_amount = 1000, oc_note = None, oc_donated_at = None\<rparr>
            (sample_world\<lparr>fail_at := Some 1\<rparr>))
       = HTTPException 400 (Generic ''Failed to add offering'')"
proof -
  let ?m = "\<lparr>mc_name = ''Ann'', mc_membership_level = Some (IntVal 99),
             mc_interview_status = None, mc_gender = None, mc_birthdate = None,
             mc_phone = None, mc_email = None, mc_basic_info = None\<rparr>"
  let ?b = "\<lparr>oc_member_id = ''m1'', oc_amount = 1000 :: int, oc_note = None,
             oc_donated_at = None\<rparr>"
  have a: "fst (create_member sample_schema ''Ann'' (Some (IntVal 99)) None None None None None
      None sample_world) = Inl ConstraintViolation"
    by (simp add: create_member_eq create_member_body_def
        resolve_lookup_id_def io_bind_def io_return_def execute_ok insert_member_def fk_ok_def
        sample_world_def sample_db_def entered_def view_def)
  have b: "\<not> is_value_error ConstraintViolation"
    by (simp add: is_value_error_def)
  have c: "fst (delete_member ''m1'' (sample_world\<lparr>fail_at := Some 0\<rparr>)) = Inl StoreFailure"
    by (simp add: delete_member_eq io_bind_def execute_def
        sample_world_def entered_def)
  have d: "fst (get_offerings_for_member sample_ops ''m1'' (sample_world\<lparr>fail_at := Some 0\<rparr>))
       = Inl StoreFailure"
    unfolding get_offerings_for_member_def with_finally_eq
    by (simp add: io_bind_def execute_def sample_world_def entered_def)
  have e: "fst (add_offering sample_ops sample_schema ''m1'' (AmountFloat 1000) [] None
          (sample_world\<lparr>fail_at := Some 1\<rparr>)) = Inl StoreFailure"
    by (simp add: add_offering_eq io_bind_def execute_def commit_def
        insert_offering_def sample_world_def sample_db_def sample_member_def entered_def
        view_def Let_def)
  from api_failure_responses [where sch = sample_schema and member = ?m and w = sample_world
      and e = ConstraintViolation, THEN conjunct1] a b
  have 1: "fst (api_add_member sample_schema ?m sample_world)
       = HTTPException 500 (Generic ''Failed to create member'')" by simp
  from api_failure_responses [where mid = "''m1''" and w = "sample_world\<lparr>fail_at := Some 0\<rparr>"
      and e = StoreFailure, THEN conjunct2, THEN conjunct1] c
  have 2: "fst (api_delete_member_ep ''m1'' (sample_world\<lparr>fail_at := Some 0\<rparr>))
       = HTTPException 500 (Generic ''Failed to delete member'')" by simp
  from api_failure_responses [where mid = "''m1''" and w = "sample_world\<lparr>fail_at := Some 0\<rparr>"
      and e = StoreFailure and ops = sample_ops, THEN conjunct2, THEN conjunct2,
      THEN conjunct2] d
  have 3: "fst (api_member_offerings sample_ops ''m1'' (sample_world\<lparr>fail_at := Some 0\<rparr>))
       = HTTPException 400 (Generic ''Failed to fetch offerings'')" by simp
  from api_failure_responses [where ops = sample_ops and sch = sample_schema and body = ?b
      and w = "sample_world\<lparr>fail_at := Some 1\<rparr>" and e = StoreFailure,
      THEN conjunct2, THEN conjunct2, THEN conjunct1] e
  have 4: "fst (api_add_offering sample_ops sample_schema ?b (sample_world\<lparr>fail_at := Some 1\<rparr>))
       = HTTPException 400 (Generic ''Failed to add offering'')" by simp
  from a b c d e 1 2 3 4 show ?thesis by simp
qed

subsection \<open>Searching members by name\<close>

lemma starts_with_iff: "starts_with s t \<longleftrightarrow> (\<exists>v. s = t @ v)"
  by (induction s t rule: starts_with.induct) auto

lemma contains_iff: "contains s t \<longleftrightarrow> (\<exists>u v. s = u @ t @ v)"
proof (induction s)
  case Nil
  then show ?case by auto
next
  case (Cons c s)
  show ?case
  proof
    assume "contains (c # s) t"
    then consider "starts_with (c # s) t" | "contains s t" by auto
    then show "\<exists>u v. c # s = u @ t @ v"
    proof cases
      case 1
      then obtain v where "c # s = t @ v" by (auto simp: starts_with_iff)
      then have "c # s = [] @ t @ v" by simp
      then show ?thesis by blast
    next
      case 2
      with Cons.IH obtain u v where "s = u @ t @ v" by blast
      then have "c # s = (c # u) @ t @ v" by simp
      then show ?thesis by blast
    qed
  next
    assume "\<exists>u v. c # s = u @ t @ v"
    then obtain u v where uv: "c # s = u @ t @ v" by blast
    show "contains (c # s) t"
    proof (cases u)
      case Nil
      with uv have "starts_with (c # s) t" by (auto simp: starts_with_iff)
      then show ?thesis by simp
    next
      case (Cons a u')
      with uv have "s = u' @ t @ v" by simp
      with Cons.IH have "contains s t" by blast
      then show ?thesis by simp
    qed
  qed
qed

lemma like_percent_only: "like s ''%''"
  by (induction s) auto

lemma like_percent: "like s (CHR ''%'' # ps) \<longleftrightarrow> (\<exists>u v. s = u @ v \<and> like v ps)"
proof (induction s)
  case Nil
  then show ?case by simp
next
  case (Cons c s)
  show ?case
  proof
    assume "like (c # s) (CHR ''%'' # ps)"
    then consider "like (c # s) ps" | "like s (CHR ''%'' # ps)" by auto
    then show "\<exists>u v. c # s = u @ v \<and> like v ps"
    proof cases
      case 1
      then have "c # s = [] @ (c # s) \<and> like (c # s) ps" by simp
      then show ?thesis by blast
    next
      case 2
      with Cons.IH obtain u v where "s = u @ v" "like v ps" by blast
      then have "c # s = (c # u) @ v \<and> like v ps" by simp
      then show ?thesis by blast
    qed
  next
    assume "\<exists>u v. c # s = u @ v \<and> like v ps"
    then obtain u v where uv: "c # s = u @ v" "like v ps" by blast
    show "like (c # s) (CHR ''%'' # ps)"
    proof (cases u)
      case Nil
      with uv show ?thesis by simp
    next
      case (Cons a u')
      with uv have "s = u' @ v" by simp
      with uv(2) Cons.IH have "like s (CHR ''%'' # ps)" by blast
      then show ?thesis by simp
    qed
  qed
qed

lemma like_plain_prefix:
  "plain t \<Longrightarrow> like s (t @ ps) \<longleftrightarrow> (\<exists>v. s = t @ v \<and> like v ps)"
proof (induction t arbitrary: s)
  case Nil
  then show ?case by simp
next
  case (Cons a t)
  then have a: "a \<noteq> CHR ''%''" "a \<noteq> CHR ''_''" "a \<noteq> CHR 0x5C" and t: "plain t"
    by (auto simp: plain_def)
  show ?case
  proof (cases s)
    case Nil
    with a show ?thesis by simp
  next
    case (Cons c s')
    with a Cons.IH [OF t, of s'] show ?thesis by auto
  qed
qed

lemma like_substring:
  assumes "plain t"
  shows "like s (''%'' @ t @ ''%'') \<longleftrightarrow> contains s t"
proof -
  have "like s (''%'' @ t @ ''%'') \<longleftrightarrow> (\<exists>u v. s = u @ v \<and> like v (t @ ''%''))"
    using like_percent [of s "t @ ''%''"] by simp
  also have "\<dots> \<longleftrightarrow> (\<exists>u v. s = u @ v \<and> (\<exists>x. v = t @ x))"
    using like_plain_prefix [OF assms, of _ "''%''"] like_percent_only by blast
  also have "\<dots> \<longleftrightarrow> (\<exists>u x. s = u @ t @ x)" by blast
  finally show ?thesis by (simp add: contains_iff)
qed

lemma lower_cases:
  "lower c = c \<or> (97 \<le> (of_char (lower c) :: nat) \<and> (of_char (lower c) :: nat) \<le> 122)"
  by (auto simp: lower_def less_eq_char_def)

lemma lower_special:
  "lower c = CHR ''%'' \<longleftrightarrow> c = CHR ''%''" "lower c = CHR ''_'' \<longleftrightarrow> c = CHR ''_''"
  "lower c = CHR 0x5C \<longleftrightarrow> c = CHR 0x5C"
proof -
  have p: "lower (CHR ''%'') = CHR ''%''" "lower (CHR ''_'') = CHR ''_''"
    "lower (CHR 0x5C) = CHR 0x5C"
    by (simp_all add: lower_def less_eq_char_def)
  show "lower c = CHR ''%'' \<longleftrightarrow> c = CHR ''%''"
    using lower_cases [of c] p by (cases "lower c = c") auto
  show "lower c = CHR ''_'' \<longleftrightarrow> c = CHR ''_''"
    using lower_cases [of c] p by (cases "lower c = c") auto
  show "lower c = CHR 0x5C \<longleftrightarrow> c = CHR 0x5C"
    using lower_cases [of c] p by (cases "lower c = c") auto
qed

lemma plain_lower: "plain t \<Longrightarrow> plain (map lower t)"
  by (auto simp: plain_def) (metis lower_special)+

lemma ilike_substring:
  assumes "plain term"
  shows "ilike nm (''%'' @ term @ ''%'') \<longleftrightarrow> spec_name_matches nm term"
proof -
  have "map lower (''%'' @ term @ ''%'') = ''%'' @ map lower term @ ''%''"
    by (simp add: lower_def less_eq_char_def)
  then show ?thesis
    using like_substring [OF plain_lower [OF assms], of "map lower nm"]
    by (simp only: ilike_def spec_name_matches_def)
qed

text \<open>
  For a plain term the search is the one the specification words: in a run that can work
  with the store, the members whose name contains the term without regard to case, in
  the order of their names.
\<close>

lemma search_members_by_name_plain:
  assumes "healthy w" "plain term"
  shows "fst (search_members_by_name term w) =
    Inr (map (\<lambda>m. \<lparr>mo_id = m_id m, mo_name = m_name m\<rparr>)
          (sort_key m_name
             (filter (\<lambda>m. spec_name_matches (m_name m) term) (members (store w)))))"
proof -
  have "fst (search_members_by_name term w) =
    Inr (map (\<lambda>m. \<lparr>mo_id = m_id m, mo_name = m_name m\<rparr>)
          (sort_key m_name
             (filter (\<lambda>m. ilike (m_name m) (''%'' @ term @ ''%'')) (members (store w)))))"
    using assms(1)
    by (simp add: search_members_by_name_def healthy_def io_bind_def get_connection_def connect_def
        cursor_def execute_ok select_members_ilike_def cursor_close_def conn_close_def
        io_return_def view_def member_row_to_dict_def comp_def)
  then show ?thesis by (simp only: ilike_substring [OF assms(2)])
qed

text \<open>
  C8. For a term with a \<^verbatim>\<open>LIKE\<close> wildcard in it the search is another one: the term
  \<^verbatim>\<open>_\<close> finds every member with a name of at least one character, here both members of
  the sample, although neither name contains an underscore.
\<close>

theorem search_members_by_name_wildcard:
  "fst (search_members_by_name ''_'' sample_world)
     = Inr [\<lparr>mo_id = ''m2'', mo_name = ''Al''\<rparr>, \<lparr>mo_id = ''m1'', mo_name = ''Mei''\<rparr>]
   \<and> \<not> spec_name_matches ''Al'' ''_'' \<and> \<not> spec_name_matches ''Mei'' ''_''"
  by (simp add: search_members_by_name_def io_bind_def get_connection_def connect_def
      cursor_def execute_ok select_members_ilike_def cursor_close_def conn_close_def
      io_return_def view_def member_row_to_dict_def sample_world_def sample_db_def
      sample_member_def ilike_def spec_name_matches_def lower_def less_eq_char_def
      less_char_def char_of_def)

subsection \<open>The same operations in \<^verbatim>\<open>app.py\<close>\<close>

text \<open>
  \<^verbatim>\<open>create_member\<close> of \<^verbatim>\<open>app.py\<close> with a level code that no row has, on a connection
  that was opened and a store that answers: the \<^verbatim>\<open>ValueError\<close> is caught inside the
  function, which rolls back and returns \<^verbatim>\<open>None\<close>; no exception reaches the caller, and
  no member row is persisted.
\<close>

lemma app_create_member_unknown_code:
  assumes "database_url w \<noteq> None" "store_reachable w" "fail_at w = None"
    "\<forall>r\<in>set (membership_levels (store w)). l_code r \<noteq> level_code"
  shows "fst (app_create_member sch nm level_code status_code g b p em bi w) = Inr None
    \<and> store (snd (app_create_member sch nm level_code status_code g b p em bi w)) = store w"
proof -
  from assms(4)
  have "fetchone (map l_id (filter (\<lambda>r. l_code r = level_code) (membership_levels (store w))))
      = None"
    using fetchone_filter_None [of l_id "\<lambda>r. l_code r = level_code" "membership_levels (store w)"]
    by blast
  with assms(1-3) show ?thesis
    by (auto simp: app_create_member_def app_get_connection_def connect_def io_bind_def cursor_def
        try_finally_def try_except_def execute_ok select_lookup_id_def lookup_table_def
        io_raise_def rollback_def io_return_def cursor_close_def conn_close_def view_def)
qed

text \<open>
  \<^verbatim>\<open>get_offerings_for_member\<close> of \<^verbatim>\<open>app.py\<close> returns the rows themselves, in the same
  order: the offerings of the member, the latest \<^verbatim>\<open>donated_at\<close> first.
\<close>

lemma app_get_offerings_for_member_rows:
  assumes "database_url w \<noteq> None" "store_reachable w" "fail_at w = None"
  shows "fst (app_get_offerings_for_member mid w) =
    Inr (sort_key (\<lambda>x. - o_donated_at x)
           (filter (\<lambda>x. o_member_id x = mid) (offerings (store w))))"
  using assms
  by (auto simp: app_get_offerings_for_member_def app_get_connection_def connect_def io_bind_def
      cursor_def execute_ok select_offerings_def io_return_def cursor_close_def
      conn_close_def view_def)

subsection \<open>Handlers without a \<^verbatim>\<open>try\<close>\<close>

text \<open>
  \<^verbatim>\<open>api_get_members\<close>, \<^verbatim>\<open>api_search_members\<close> and \<^verbatim>\<open>api_get_member_id\<close> catch nothing:
  an exception of the data-access call leaves the handler as it is, and what the caller
  sees of it is the framework's business.
\<close>

lemma unguarded_handlers_propagate:
  "fst (get_all_members w) = Inl e \<Longrightarrow> fst (api_get_members w) = Unhandled e"
  "fst (search_members_by_name nm w) = Inl e \<Longrightarrow> fst (api_search_members nm w) = Unhandled e"
  "fst (get_member_id_by_name nm w) = Inl e \<Longrightarrow> fst (api_get_member_id nm w) = Unhandled e"
  by (auto simp: api_get_members_def api_search_members_def api_get_member_id_def
      split: prod.splits sum.splits)

end
